theory Spec2Isabelle
  imports Complex_Main "HOL-Library.Multiset"
begin

section \<open>Tensors, errors and collaborators\<close>

text \<open>
  The module \<^verbatim>\<open>EwladMPRef.py\<close> defines two message-passing layers, \<^verbatim>\<open>EwaldBlock\<close> and
  \<^verbatim>\<open>HadamardBlock\<close>. Tensors are modelled by nested lists: a rank-1 tensor is a list of
  numbers, a rank-2 tensor a list of rows, a rank-3 tensor a list of matrices. Tensor
  entries are real numbers. The Ewald block is modelled in exact arithmetic. In the
  Hadamard block, whose sum over the edges depends in floating point on the order of the
  edges, the rounding applied to the result of every addition and multiplication is a
  parameter. A tensor with no rows is the empty list, so its trailing sizes are not
  represented; the shape tests below constrain the rows that exist.
\<close>

type_synonym vec = "real list"
type_synonym mat = "real list list"
type_synonym ten3 = "real list list list"

text \<open>
  Failures of the tensor engine and of the Python interpreter are values. The tensor
  engine raises on an index outside its range (\<open>IndexError\<close>) and on sizes that do not
  agree (\<open>ShapeError\<close>); sizes that the engine would reconcile by broadcasting a
  dimension of size one, other than through the \<^verbatim>\<open>unsqueeze\<close>/\<^verbatim>\<open>expand\<close> calls written in
  the source, are treated as disagreeing.
\<close>

datatype error =
  IndexError | ShapeError | TypeError | NameError string | ZeroDivisionError | RuntimeError

text \<open>Sequencing: an error ends the computation, a value is passed on.\<close>

definition then_do :: "error + 'a \<Rightarrow> ('a \<Rightarrow> error + 'b) \<Rightarrow> error + 'b" where
  "then_do r f = (case r of Inl e \<Rightarrow> Inl e | Inr v \<Rightarrow> f v)"

definition ncols :: "'a list list \<Rightarrow> nat" where
  "ncols t = (case t of [] \<Rightarrow> 0 | r # _ \<Rightarrow> length r)"

definition is_mat :: "nat \<Rightarrow> nat \<Rightarrow> 'a list list \<Rightarrow> bool" where
  "is_mat n m t \<longleftrightarrow> length t = n \<and> list_all (\<lambda>r. length r = m) t"

text \<open>
  The layers \<^verbatim>\<open>Dense\<close> and \<^verbatim>\<open>ResidualLayer\<close> are imported building blocks. Both act on the
  last axis of their argument, so each is a function on rows; a \<^verbatim>\<open>Dense\<close> layer also exposes
  the weight matrix of its linear map (\<^verbatim>\<open>linear.weight\<close>, of shape output size by input
  size), which the periodic filter reads.
\<close>

record Dense =
  linear_weight :: mat
  dense_call :: "vec \<Rightarrow> vec"

type_synonym layer = "vec \<Rightarrow> vec"

text \<open>
  Modelled from the spec: the \<^verbatim>\<open>ScaleFactor\<close> class is imported and its code is not part
  of the module. The spec describes it as a learned or calibrated scalar rescaling, a
  callable taking the value and a reference and returning the rescaled value: the value
  is multiplied by the stored scalar, and the reference does not enter the result.
\<close>

record ScaleFactor =
  scale_factor :: real

definition ScaleFactor_call :: "ScaleFactor \<Rightarrow> mat \<Rightarrow> mat \<Rightarrow> mat" where
  "ScaleFactor_call sf val ref = map (map (\<lambda>v. v * scale_factor sf)) val"

section \<open>Names bound in the module\<close>

text \<open>
  The top-level statements of the module, in order: four imports and two class
  definitions. Each binds the names it introduces in the module's global namespace.
  As committed, the file carries explanatory text inside the parameter list of
  \<^verbatim>\<open>EwaldBlock.__init__\<close> and below the header of its \<^verbatim>\<open>get_mlp\<close>, which Python does not
  accept; the module is read with that text as comments.
\<close>

datatype stmt = Import string | FromImport string "string list" | ClassDef string

definition module_body :: "stmt list" where
  "module_body =
     [Import ''torch'',
      FromImport ''torch_scatter'' [''scatter''],
      FromImport ''ocpmodels.models.gemnet.layers.base_layers'' [''Dense'', ''ResidualLayer''],
      FromImport ''ocpmodels.modules.scaling.scale_factor'' [''ScaleFactor''],
      ClassDef ''EwaldBlock'',
      ClassDef ''HadamardBlock'']"

fun bound_names :: "stmt \<Rightarrow> string list" where
  "bound_names (Import m) = [m]"
| "bound_names (FromImport m ns) = ns"
| "bound_names (ClassDef c) = [c]"

definition module_globals :: "string list" where
  "module_globals = concat (map bound_names module_body)"

text \<open>The names of Python's built-in namespace: functions, constants and exceptions.\<close>

definition builtins :: "string list" where
  "builtins =
     [''abs'', ''aiter'', ''all'', ''anext'', ''any'', ''ascii'', ''bin'', ''bool'',
      ''breakpoint'', ''bytearray'', ''bytes'', ''callable'', ''chr'', ''classmethod'',
      ''compile'', ''complex'', ''delattr'', ''dict'', ''dir'', ''divmod'', ''enumerate'',
      ''eval'', ''exec'', ''filter'', ''float'', ''format'', ''frozenset'', ''getattr'',
      ''globals'', ''hasattr'', ''hash'', ''help'', ''hex'', ''id'', ''input'', ''int'',
      ''isinstance'', ''issubclass'', ''iter'', ''len'', ''list'', ''locals'', ''map'',
      ''max'', ''memoryview'', ''min'', ''next'', ''object'', ''oct'', ''open'', ''ord'',
      ''pow'', ''print'', ''property'', ''range'', ''repr'', ''reversed'', ''round'',
      ''set'', ''setattr'', ''slice'', ''sorted'', ''staticmethod'', ''str'', ''sum'',
      ''super'', ''tuple'', ''type'', ''vars'', ''zip'', ''__import__'',
      ''True'', ''False'', ''None'', ''NotImplemented'', ''Ellipsis'', ''__debug__'',
      ''copyright'', ''credits'', ''license'', ''exit'', ''quit'',
      ''__name__'', ''__doc__'', ''__package__'', ''__loader__'', ''__spec__'',
      ''__build_class__'',
      ''BaseException'', ''BaseExceptionGroup'', ''Exception'', ''ExceptionGroup'',
      ''GeneratorExit'', ''KeyboardInterrupt'', ''SystemExit'',
      ''ArithmeticError'', ''AssertionError'', ''AttributeError'', ''BlockingIOError'',
      ''BrokenPipeError'', ''BufferError'', ''ChildProcessError'',
      ''ConnectionAbortedError'', ''ConnectionError'', ''ConnectionRefusedError'',
      ''ConnectionResetError'', ''EOFError'', ''EnvironmentError'', ''FileExistsError'',
      ''FileNotFoundError'', ''FloatingPointError'', ''IOError'', ''ImportError'',
      ''IndentationError'', ''IndexError'', ''InterruptedError'', ''IsADirectoryError'',
      ''KeyError'', ''LookupError'', ''MemoryError'', ''ModuleNotFoundError'',
      ''NameError'', ''NotADirectoryError'', ''NotImplementedError'', ''OSError'',
      ''OverflowError'', ''PermissionError'', ''ProcessLookupError'', ''RecursionError'',
      ''ReferenceError'', ''RuntimeError'', ''StopAsyncIteration'', ''StopIteration'',
      ''SyntaxError'', ''SystemError'', ''TabError'', ''TimeoutError'', ''TypeError'',
      ''UnboundLocalError'', ''UnicodeDecodeError'', ''UnicodeEncodeError'',
      ''UnicodeError'', ''UnicodeTranslateError'', ''ValueError'', ''ZeroDivisionError'',
      ''BytesWarning'', ''DeprecationWarning'', ''EncodingWarning'', ''FutureWarning'',
      ''ImportWarning'', ''PendingDeprecationWarning'', ''ResourceWarning'',
      ''RuntimeWarning'', ''SyntaxWarning'', ''UnicodeWarning'', ''UserWarning'',
      ''Warning'']"

text \<open>
  A name read inside a method is looked up among the method's local variables, then
  the module's globals, then the built-ins; a name bound in none of them raises
  \<^verbatim>\<open>NameError\<close>.
\<close>

definition resolve :: "string list \<Rightarrow> string \<Rightarrow> error + unit" where
  "resolve locals n =
     (if n \<in> set locals \<or> n \<in> set module_globals \<or> n \<in> set builtins then Inr ()
      else Inl (NameError n))"

section \<open>HadamardBlock: construction\<close>

text \<open>
  The constructors of the imported building blocks create layers with freshly
  initialised parameters, or raise. They are parameters of the model; the first argument
  names the place of the call, so that two layers built with equal sizes may differ.
  An activation is a name or absent. \<^verbatim>\<open>HadamardBlock\<close> names a fourth class,
  \<^verbatim>\<open>ScalingFactor\<close>, whose instances are called with two positional arguments; what such
  a call returns is left open.
\<close>

type_synonym scale_call = "mat \<Rightarrow> mat \<Rightarrow> error + mat"

record collaborators =
  Dense_new :: "string \<Rightarrow> int \<Rightarrow> int \<Rightarrow> string option \<Rightarrow> bool \<Rightarrow> error + Dense"
  ResidualLayer_new :: "string \<Rightarrow> nat \<Rightarrow> int \<Rightarrow> nat \<Rightarrow> string option \<Rightarrow> error + layer"
  ScaleFactor_new :: "string \<Rightarrow> error + ScaleFactor"
  ScalingFactor_new :: "string option \<Rightarrow> string \<Rightarrow> error + scale_call"

record HadamardBlock =
  hb_name :: string
  dense_bf :: Dense
  scale_sum :: scale_call
  hb_pre_residual :: layer
  layers :: "layer list"

text \<open>The elements of a list comprehension, in order; the first error ends it.\<close>

fun collect :: "(error + 'a) list \<Rightarrow> error + 'a list" where
  "collect [] = Inr []"
| "collect (r # rs) = then_do r (\<lambda>v. then_do (collect rs) (\<lambda>vs. Inr (v # vs)))"

text \<open>
  \<^verbatim>\<open>get_mlp\<close>: one bias-free \<^verbatim>\<open>Dense\<close> layer followed by \<^verbatim>\<open>num_hidden\<close> residual layers
  (\<^verbatim>\<open>range\<close> of a negative number is empty). Inside \<^verbatim>\<open>get_mlp\<close> the names \<^verbatim>\<open>Dense\<close>,
  \<^verbatim>\<open>range\<close>, \<^verbatim>\<open>ResidualLayer\<close> (once for every residual layer) and \<^verbatim>\<open>torch\<close> are read.
\<close>

definition get_mlp_locals :: "string list" where
  "get_mlp_locals = [''self'', ''units_in'', ''units'', ''nHidden'', ''activation'',
                     ''dense1'', ''mlp'', ''res'', ''i'']"

definition get_mlp ::
  "collaborators \<Rightarrow> string \<Rightarrow> int \<Rightarrow> int \<Rightarrow> int \<Rightarrow> string option \<Rightarrow> error + layer list" where
  "get_mlp C site units_in units nHidden activation =
     then_do (resolve get_mlp_locals ''Dense'') (\<lambda>_.
     then_do (Dense_new C (site @ ''.dense1'') units_in units activation False) (\<lambda>dense1.
     then_do (resolve get_mlp_locals ''range'') (\<lambda>_.
     then_do (collect (map (\<lambda>i. then_do (resolve get_mlp_locals ''ResidualLayer'') (\<lambda>_.
                                   ResidualLayer_new C site i units 2 activation))
                          [0..<nat nHidden])) (\<lambda>res.
     then_do (resolve get_mlp_locals ''torch'') (\<lambda>_.
     Inr (dense_call dense1 # res))))))"

text \<open>
  \<^verbatim>\<open>HadamardBlock.__init__\<close>, statement by statement. In a call, Python evaluates the
  callee before the arguments, so the name of the class is resolved first: the statement
  \<^verbatim>\<open>self.dense_bf = Dense(...)\<close> runs, and may raise, before the name \<^verbatim>\<open>ScalingFactor\<close>
  is looked up, and \<^verbatim>\<open>name + "_sum"\<close> is evaluated after that lookup.
\<close>

definition hb_init_locals :: "string list" where
  "hb_init_locals = [''self'', ''emb_size_atom'', ''emb_size_bf'', ''nHidden'',
                     ''activation'', ''scale_file'', ''name'', ''__class__'']"

definition HadamardBlock_init ::
  "collaborators \<Rightarrow> int \<Rightarrow> int \<Rightarrow> int \<Rightarrow> string option \<Rightarrow> string option \<Rightarrow> string
     \<Rightarrow> error + HadamardBlock" where
  "HadamardBlock_init C emb_size_atom emb_size_bf nHidden activation scale_file name =
     then_do (resolve hb_init_locals ''super'') (\<lambda>_.
     then_do (resolve hb_init_locals ''Dense'') (\<lambda>_.
     then_do (Dense_new C ''dense_bf'' emb_size_bf emb_size_atom None False) (\<lambda>d.
     then_do (resolve hb_init_locals ''ScalingFactor'') (\<lambda>_.
     then_do (ScalingFactor_new C scale_file (name @ ''_sum'')) (\<lambda>s.
     then_do (resolve hb_init_locals ''ResidualLayer'') (\<lambda>_.
     then_do (ResidualLayer_new C ''pre_residual'' 0 emb_size_atom 2 activation) (\<lambda>p.
     then_do (get_mlp C ''layers'' emb_size_atom emb_size_atom nHidden activation) (\<lambda>ls.
     Inr \<lparr>hb_name = name, dense_bf = d, scale_sum = s, hb_pre_residual = p,
          layers = ls\<rparr>))))))))"

section \<open>HadamardBlock: forward\<close>

text \<open>
  \<^verbatim>\<open>torch.index_select(t, 0, idx)\<close>: the rows of \<open>t\<close> named by \<open>idx\<close>; an index outside
  \<open>[0, length t)\<close> raises.
\<close>

definition index_select :: "'a list \<Rightarrow> int list \<Rightarrow> error + 'a list" where
  "index_select t idx =
     (if list_all (\<lambda>i. 0 \<le> i \<and> i < int (length t)) idx
      then Inr (map (\<lambda>i. t ! nat i) idx) else Inl IndexError)"

text \<open>Sum and product of two rows, entry by entry, in exact arithmetic.\<close>

definition vadd :: "vec \<Rightarrow> vec \<Rightarrow> vec" where
  "vadd u v = map2 (+) u v"

definition vmul :: "vec \<Rightarrow> vec \<Rightarrow> vec" where
  "vmul u v = map2 (*) u v"

text \<open>
  The same in the number format of the tensors: \<open>rnd\<close> rounds the exact result of each
  operation to the format. It is the identity for exact arithmetic and \<open>fl32\<close> below for
  the engine's default format.
\<close>

definition radd :: "(real \<Rightarrow> real) \<Rightarrow> vec \<Rightarrow> vec \<Rightarrow> vec" where
  "radd rnd u v = map2 (\<lambda>a b. rnd (a + b)) u v"

definition rmul :: "(real \<Rightarrow> real) \<Rightarrow> vec \<Rightarrow> vec \<Rightarrow> vec" where
  "rmul rnd u v = map2 (\<lambda>a b. rnd (a * b)) u v"




text \<open>
  \<^verbatim>\<open>scatter(x, idx_t, dim=0, dim_size=nAtoms, reduce="sum")\<close>: the index is expanded to
  the rows of \<open>x\<close>, so there is one index per row; the output starts as zeros with
  \<open>nAtoms\<close> rows of the row size \<open>E\<close> of \<open>x\<close>, and every row of \<open>x\<close> is added, in order, to
  the output row its index names.
\<close>

definition scatter_step :: "(real \<Rightarrow> real) \<Rightarrow> int \<times> vec \<Rightarrow> mat \<Rightarrow> mat" where
  "scatter_step rnd e out = out[nat (fst e) := radd rnd (out ! nat (fst e)) (snd e)]"

definition scatter_sum ::
  "(real \<Rightarrow> real) \<Rightarrow> nat \<Rightarrow> mat \<Rightarrow> int list \<Rightarrow> nat \<Rightarrow> error + mat" where
  "scatter_sum rnd E x idx dim_size =
     (if length idx \<noteq> length x then Inl ShapeError
      else if \<not> list_all (\<lambda>i. 0 \<le> i \<and> i < int dim_size) idx then Inl IndexError
      else Inr (fold (scatter_step rnd) (zip idx x) (replicate dim_size (replicate E 0))))"

text \<open>
  The first four statements of \<^verbatim>\<open>HadamardBlock.forward\<close> and the scatter: the aggregate
  \<^verbatim>\<open>x2\<close>. The row size of the messages \<open>x\<close>, which an empty list of edges does not carry,
  is that of \<open>h_res\<close>, whose rows the messages are products of.
\<close>

definition messages ::
  "(real \<Rightarrow> real) \<Rightarrow> HadamardBlock \<Rightarrow> mat \<Rightarrow> mat \<Rightarrow> int list \<Rightarrow> error + mat" where
  "messages rnd blk h bf idx_s =
     (let h_res = map (hb_pre_residual blk) h;
          mlp_bf = map (dense_call (dense_bf blk)) bf
      in then_do (index_select h_res idx_s) (\<lambda>sel.
           if list_all2 (\<lambda>a b. length a = length b) sel mlp_bf
           then Inr (map2 (rmul rnd) sel mlp_bf) else Inl ShapeError))"

definition aggregate ::
  "(real \<Rightarrow> real) \<Rightarrow> HadamardBlock \<Rightarrow> mat \<Rightarrow> mat \<Rightarrow> int list \<Rightarrow> int list \<Rightarrow> error + mat" where
  "aggregate rnd blk h bf idx_s idx_t =
     (let nAtoms = length h;
          h_res = map (hb_pre_residual blk) h
      in then_do (messages rnd blk h bf idx_s) (\<lambda>x.
           scatter_sum rnd (ncols h_res) x idx_t nAtoms))"

text \<open>A list of layers applied in order, each to every row.\<close>

definition apply_layers :: "layer list \<Rightarrow> mat \<Rightarrow> mat" where
  "apply_layers ls t = fold (\<lambda>l y. map l y) ls t"



definition reference_first :: "real \<Rightarrow> scale_call" where
  "reference_first c ref val = Inr (map (map (\<lambda>v. v * c)) val)"

text \<open>Reordering a list by a list of positions.\<close>

definition permute :: "nat list \<Rightarrow> 'a list \<Rightarrow> 'a list" where
  "permute p xs = map (\<lambda>i. xs ! i) p"

section \<open>EwaldBlock: construction\<close>

text \<open>
  The attributes of an \<^verbatim>\<open>EwaldBlock\<close>. The filter \<^verbatim>\<open>kfilter\<close> is an attribute that
  \<^verbatim>\<open>forward\<close> assigns; it is absent on a block that has not been called. The scale factor
  is present when a name was given.
\<close>

record EwaldBlock =
  use_pbc :: bool
  return_k_params :: bool
  delta_k :: "real option"
  k_rbf_values :: "mat option"
  down :: Dense
  up :: Dense
  pre_residual :: layer
  ewald_layers :: "layer list"
  ewald_scale_sum :: "ScaleFactor option"
  kfilter :: "ten3 option"

definition eb_init_locals :: "string list" where
  "eb_init_locals = [''self'', ''shared_downprojection'', ''emb_size_atom'',
                     ''downprojection_size'', ''num_hidden'', ''activation'', ''name'',
                     ''use_pbc'', ''delta_k'', ''k_rbf_values'', ''return_k_params'',
                     ''__class__'']"

text \<open>
  \<^verbatim>\<open>EwaldBlock.__init__\<close>. The two classes define \<^verbatim>\<open>get_mlp\<close> with the same body.
\<close>

definition EwaldBlock_init ::
  "collaborators \<Rightarrow> Dense \<Rightarrow> int \<Rightarrow> int \<Rightarrow> int \<Rightarrow> string option \<Rightarrow> string option \<Rightarrow> bool
     \<Rightarrow> real option \<Rightarrow> mat option \<Rightarrow> bool \<Rightarrow> error + EwaldBlock" where
  "EwaldBlock_init C shared_downprojection emb_size_atom downprojection_size num_hidden
       activation name pbc dk rbf ret =
     then_do (resolve eb_init_locals ''super'') (\<lambda>_.
     then_do (resolve eb_init_locals ''Dense'') (\<lambda>_.
     then_do (Dense_new C ''up'' downprojection_size emb_size_atom None False) (\<lambda>u.
     then_do (resolve eb_init_locals ''ResidualLayer'') (\<lambda>_.
     then_do (ResidualLayer_new C ''pre_residual'' 0 emb_size_atom 2 activation) (\<lambda>p.
     then_do (get_mlp C ''ewald_layers'' emb_size_atom emb_size_atom num_hidden activation)
       (\<lambda>ls.
     then_do (case name of
                None \<Rightarrow> Inr None
              | Some n \<Rightarrow> then_do (resolve eb_init_locals ''ScaleFactor'') (\<lambda>_.
                           then_do (ScaleFactor_new C (n @ ''_sum'')) (\<lambda>sf.
                           Inr (Some sf)))) (\<lambda>sc.
     Inr \<lparr>use_pbc = pbc, return_k_params = ret, delta_k = dk, k_rbf_values = rbf,
          down = shared_downprojection, up = u, pre_residual = p, ewald_layers = ls,
          ewald_scale_sum = sc, kfilter = None\<rparr>)))))))"

text \<open>
  What construction establishes about the layers of a block of embedding size \<open>E\<close>: each
  maps rows of size \<open>E\<close> to rows of size \<open>E\<close>.
\<close>

definition layer_ok :: "nat \<Rightarrow> layer \<Rightarrow> bool" where
  "layer_ok E l \<longleftrightarrow> (\<forall>v. length v = E \<longrightarrow> length (l v) = E)"

definition wf_EwaldBlock :: "nat \<Rightarrow> EwaldBlock \<Rightarrow> bool" where
  "wf_EwaldBlock E blk \<longleftrightarrow>
     layer_ok E (pre_residual blk) \<and> list_all (layer_ok E) (ewald_layers blk)"

text \<open>
  The contract of the imported constructors: a \<^verbatim>\<open>Dense\<close> layer that was built for input
  size \<open>m\<close> and output size \<open>n\<close> maps rows of size \<open>m\<close> to rows of size \<open>n\<close>, and a
  residual layer that was built for size \<open>n\<close> maps rows of size \<open>n\<close> to rows of size \<open>n\<close>.
\<close>

definition collaborators_ok :: "collaborators \<Rightarrow> bool" where
  "collaborators_ok C \<longleftrightarrow>
     (\<forall>site m n a b d v. Dense_new C site m n a b = Inr d \<longrightarrow> length v = nat m \<longrightarrow>
        length (dense_call d v) = nat n)
     \<and> (\<forall>site i n l a r. ResidualLayer_new C site i n l a = Inr r \<longrightarrow> layer_ok (nat n) r)"

section \<open>EwaldBlock: forward\<close>

text \<open>
  The damping factor is the Python number \<open>1\<close> under periodic boundary conditions and a
  tensor otherwise. \<^verbatim>\<open>forward\<close> returns the update alone or with the dot products and the
  damping factor.
\<close>

datatype damping = Scalar real | Damp mat

datatype fwd_result = Update mat | UpdateK mat mat damping

fun update_of :: "fwd_result \<Rightarrow> mat" where
  "update_of (Update u) = u"
| "update_of (UpdateK u d s) = u"

text \<open>
  The dot products. \<^verbatim>\<open>torch.gather(k, 0, b)\<close>, with \<open>b\<close> the batch segment expanded over
  the last two axes of \<open>k\<close>, takes for every atom the reciprocal vectors of its structure;
  they are multiplied with the atom's position and summed over the last axis.
\<close>

definition compute_dot :: "ten3 \<Rightarrow> mat \<Rightarrow> int list \<Rightarrow> error + mat" where
  "compute_dot k x batch_seg =
     then_do (index_select k batch_seg) (\<lambda>g.
       if list_all2 (\<lambda>gi xi. list_all (\<lambda>kv. length kv = length xi) gi) g x
       then Inr (map2 (\<lambda>gi xi. map (\<lambda>kv. sum_list (vmul kv xi)) gi) g x)
       else Inl ShapeError)"

text \<open>\<^verbatim>\<open>torch.sinc\<close>: the normalised sinc function.\<close>

definition sinc :: "real \<Rightarrow> real" where
  "sinc t = (if t = 0 then 1 else sin (pi * t) / (pi * t))"

text \<open>
  The damping factor: three sinc terms of the position components, expanded over the
  reciprocal vectors (\<^verbatim>\<open>k.shape[-2]\<close> of them), or the number 1.
\<close>

definition compute_damping :: "EwaldBlock \<Rightarrow> mat \<Rightarrow> ten3 \<Rightarrow> error + damping" where
  "compute_damping blk x k =
     (if use_pbc blk = False then
        (case delta_k blk of
           None \<Rightarrow> Inl TypeError
         | Some dk \<Rightarrow>
             if list_all (\<lambda>xi. 3 \<le> length xi) x
             then Inr (Damp (map (\<lambda>xi. replicate (ncols k)
                                    (sinc (0.5 * dk * xi ! 0)
                                     * sinc (0.5 * dk * xi ! 1)
                                     * sinc (0.5 * dk * xi ! 2))) x))
             else Inl IndexError)
      else Inr (Scalar 1))"

definition resolve_dot :: "ten3 \<Rightarrow> mat \<Rightarrow> int list \<Rightarrow> mat option \<Rightarrow> error + mat" where
  "resolve_dot k x batch_seg dot =
     (case dot of None \<Rightarrow> compute_dot k x batch_seg | Some d \<Rightarrow> Inr d)"

definition resolve_damping ::
  "EwaldBlock \<Rightarrow> mat \<Rightarrow> ten3 \<Rightarrow> damping option \<Rightarrow> error + damping" where
  "resolve_damping blk x k sinc_damping =
     (case sinc_damping of None \<Rightarrow> compute_damping blk x k | Some s \<Rightarrow> Inr s)"

text \<open>The damping factor read at an atom and a reciprocal vector.\<close>

fun damping_at :: "damping \<Rightarrow> nat \<Rightarrow> nat \<Rightarrow> real" where
  "damping_at (Scalar c) i j = c"
| "damping_at (Damp t) i j = t ! i ! j"

text \<open>
  The Fourier-space filter. \<^verbatim>\<open>torch.matmul\<close> of two matrices, \<^verbatim>\<open>.T\<close>, and
  \<^verbatim>\<open>.unsqueeze(0).expand(num_batch, -1, -1)\<close>. (With a negative \<open>num_batch\<close> either the
  expansion or the allocation of the structure factor, which follows it, raises.)
\<close>

definition matmul :: "mat \<Rightarrow> mat \<Rightarrow> error + mat" where
  "matmul A B =
     (if list_all (\<lambda>r. length r = length B) A \<and> list_all (\<lambda>r. length r = ncols B) B
      then Inr (map (\<lambda>r. map (\<lambda>j. sum_list (map2 (\<lambda>a b. a * b ! j) r B)) [0..<ncols B]) A)
      else Inl ShapeError)"

definition transpose_m :: "mat \<Rightarrow> mat" where
  "transpose_m M = map (\<lambda>j. map (\<lambda>r. r ! j) M) [0..<ncols M]"

definition expand_batch :: "int \<Rightarrow> mat \<Rightarrow> error + ten3" where
  "expand_batch num_batch m =
     (if num_batch < 0 then Inl ShapeError else Inr (replicate (nat num_batch) m))"

definition compute_kfilter :: "EwaldBlock \<Rightarrow> int \<Rightarrow> error + ten3" where
  "compute_kfilter blk num_batch =
     (if use_pbc blk then
        then_do (matmul (linear_weight (up blk)) (linear_weight (down blk))) (\<lambda>w.
          expand_batch num_batch (transpose_m w))
      else
        (case k_rbf_values blk of
           None \<Rightarrow> Inl TypeError
         | Some rbf \<Rightarrow>
             expand_batch num_batch
               (map (dense_call (up blk)) (map (dense_call (down blk)) rbf))))"

text \<open>\<^verbatim>\<open>sinc_damping * torch.cos(dot)\<close> and \<^verbatim>\<open>sinc_damping * torch.sin(dot)\<close>.\<close>

definition damped :: "(real \<Rightarrow> real) \<Rightarrow> damping \<Rightarrow> mat \<Rightarrow> error + mat" where
  "damped f sd dot =
     (case sd of
        Scalar c \<Rightarrow> Inr (map (map (\<lambda>d. c * f d)) dot)
      | Damp t \<Rightarrow>
          if list_all2 (\<lambda>a b. length a = length b) t dot
          then Inr (map2 (map2 (\<lambda>s d. s * f d)) t dot) else Inl ShapeError)"

text \<open>
  The structure factor: \<open>hres\<close> expanded over the reciprocal vectors times the damped
  cosine (or sine) expanded over the embedding, added with \<^verbatim>\<open>index_add_\<close> into zeros of
  shape \<open>(num_batch, K, E)\<close> at the structure of each atom, atom after atom.
\<close>

definition weighted :: "mat \<Rightarrow> mat \<Rightarrow> ten3" where
  "weighted hres w = map2 (\<lambda>hr wr. map (\<lambda>c. map (\<lambda>a. a * c) hr) wr) hres w"

definition madd :: "mat \<Rightarrow> mat \<Rightarrow> mat" where
  "madd a b = map2 vadd a b"

definition new_zeros :: "nat \<Rightarrow> nat \<Rightarrow> nat \<Rightarrow> ten3" where
  "new_zeros B K E = replicate B (replicate K (replicate E 0))"

definition index_add_step :: "int \<times> mat \<Rightarrow> ten3 \<Rightarrow> ten3" where
  "index_add_step e acc = acc[nat (fst e) := madd (acc ! nat (fst e)) (snd e)]"

definition index_add :: "ten3 \<Rightarrow> int list \<Rightarrow> ten3 \<Rightarrow> error + ten3" where
  "index_add acc idx src =
     (if length idx \<noteq> length src then Inl ShapeError
      else if \<not> list_all (\<lambda>i. 0 \<le> i \<and> i < int (length acc)) idx then Inl IndexError
      else Inr (fold index_add_step (zip idx src) acc))"

definition structure_factor ::
  "nat \<Rightarrow> nat \<Rightarrow> mat \<Rightarrow> mat \<Rightarrow> int \<Rightarrow> int list \<Rightarrow> error + ten3" where
  "structure_factor K E hres w num_batch batch_seg =
     (if num_batch < 0 \<or> \<not> (is_mat (length hres) K w \<and> list_all (\<lambda>r. length r = E) hres)
      then Inl ShapeError
      else index_add (new_zeros (nat num_batch) K E) batch_seg (weighted hres w))"

text \<open>
  The filtered structure factor of an atom's structure, times the atom's damped cosine
  and sine, summed over the reciprocal vectors (\<^verbatim>\<open>dim=1\<close>) and scaled by 0.01.
\<close>

definition tmul3 :: "ten3 \<Rightarrow> ten3 \<Rightarrow> ten3" where
  "tmul3 a b = map2 (map2 vmul) a b"

definition sum_rows :: "nat \<Rightarrow> mat \<Rightarrow> vec" where
  "sum_rows E rows = foldr vadd rows (replicate E 0)"

definition atom_update :: "nat \<Rightarrow> mat \<Rightarrow> mat \<Rightarrow> vec \<Rightarrow> vec \<Rightarrow> vec" where
  "atom_update E fr fi c s =
     map (\<lambda>v. 0.01 * v)
       (sum_rows E (madd (map2 (\<lambda>r a. map (\<lambda>v. v * a) r) fr c)
                         (map2 (\<lambda>r b. map (\<lambda>v. v * b) r) fi s)))"

definition back_transform :: "nat \<Rightarrow> ten3 \<Rightarrow> ten3 \<Rightarrow> mat \<Rightarrow> mat \<Rightarrow> mat" where
  "back_transform E sel_r sel_i wc ws =
     map (\<lambda>(fr, fi, c, s). atom_update E fr fi c s) (zip sel_r (zip sel_i (zip wc ws)))"

text \<open>
  The optional rescaling: \<^verbatim>\<open>self.ewald_scale_sum(h_update, ref=h)\<close> when a scale factor
  was configured.
\<close>

definition rescale :: "ScaleFactor option \<Rightarrow> mat \<Rightarrow> mat \<Rightarrow> mat" where
  "rescale sc h_update h =
     (case sc of None \<Rightarrow> h_update | Some sf \<Rightarrow> ScaleFactor_call sf h_update h)"

text \<open>
  The structure factors and the transform back to the atoms (the statements of
  \<^verbatim>\<open>forward\<close> from \<^verbatim>\<open>sf_real\<close> to the first value of \<^verbatim>\<open>h_update\<close>), given the damped
  cosine \<open>wc\<close> and sine \<open>ws\<close>; \<open>K\<close> is \<^verbatim>\<open>dot.shape[-1]\<close> and \<open>E\<close> is \<^verbatim>\<open>hres.shape[-1]\<close>.
  The sizes of an empty tensor are not represented, so the sizes of the filter are
  compared with those of the structure factor when there is an atom.
\<close>

definition ewald_sum ::
  "nat \<Rightarrow> nat \<Rightarrow> mat \<Rightarrow> mat \<Rightarrow> mat \<Rightarrow> ten3 \<Rightarrow> int \<Rightarrow> int list \<Rightarrow> error + mat" where
  "ewald_sum K E hres wc ws kf num_batch batch_seg =
     then_do (structure_factor K E hres wc num_batch batch_seg) (\<lambda>sf_real.
     then_do (structure_factor K E hres ws num_batch batch_seg) (\<lambda>sf_imag.
     then_do (if hres \<noteq> [] \<and> \<not> list_all (is_mat K E) kf then Inl ShapeError
              else Inr ()) (\<lambda>_.
     then_do (index_select (tmul3 sf_real kf) batch_seg) (\<lambda>sel_r.
     then_do (index_select (tmul3 sf_imag kf) batch_seg) (\<lambda>sel_i.
     Inr (back_transform E sel_r sel_i wc ws))))))"

text \<open>
  \<^verbatim>\<open>EwaldBlock.forward\<close>. The result is the returned value together with the block, whose
  attribute \<^verbatim>\<open>kfilter\<close> the call has assigned.
\<close>

definition forward ::
  "EwaldBlock \<Rightarrow> mat \<Rightarrow> mat \<Rightarrow> ten3 \<Rightarrow> int \<Rightarrow> int list \<Rightarrow> mat option \<Rightarrow> damping option
     \<Rightarrow> error + (fwd_result \<times> EwaldBlock)" where
  "forward blk h x k num_batch batch_seg dot sinc_damping =
     (let hres = map (pre_residual blk) h in
      then_do (resolve_dot k x batch_seg dot) (\<lambda>dot.
      then_do (resolve_damping blk x k sinc_damping) (\<lambda>sinc_damping.
      then_do (compute_kfilter blk num_batch) (\<lambda>kf.
      let blk' = blk\<lparr>kfilter := Some kf\<rparr> in
      then_do (damped cos sinc_damping dot) (\<lambda>wc.
      then_do (damped sin sinc_damping dot) (\<lambda>ws.
      then_do (ewald_sum (ncols dot) (ncols hres) hres wc ws kf num_batch batch_seg)
        (\<lambda>h_update.
      let h_update = rescale (ewald_scale_sum blk) h_update h;
          h_update = apply_layers (ewald_layers blk) h_update
      in Inr (if return_k_params blk then UpdateK h_update dot sinc_damping
              else Update h_update, blk'))))))))"

section \<open>Example blocks\<close>

text \<open>
  Small blocks on which the properties below are evaluated: identity layers, and a scale
  factor given as an argument.
\<close>

definition hb_example :: "scale_call \<Rightarrow> HadamardBlock" where
  "hb_example sc =
     \<lparr>hb_name = ''hadamard_atom_update'',
      dense_bf = \<lparr>linear_weight = [[1]], dense_call = (\<lambda>v. v)\<rparr>,
      scale_sum = sc,
      hb_pre_residual = (\<lambda>v. v),
      layers = [\<lambda>v. v]\<rparr>"

text \<open>
  Constructors in which \<^verbatim>\<open>Dense\<close> refuses a size that is zero or negative, as the
  library's layer does when it creates and initialises its weight matrix, and builds a
  layer with zero weights otherwise.
\<close>

definition lib_example :: collaborators where
  "lib_example =
     \<lparr>Dense_new = (\<lambda>site m n a b.
        if m = 0 \<or> n = 0 then Inl ZeroDivisionError
        else if m < 0 \<or> n < 0 then Inl RuntimeError
        else Inr \<lparr>linear_weight = replicate (nat n) (replicate (nat m) 0),
                  dense_call = (\<lambda>v. replicate (nat n) 0)\<rparr>),
      ResidualLayer_new = (\<lambda>site i n l a. Inr (\<lambda>v. v)),
      ScaleFactor_new = (\<lambda>n. Inr \<lparr>scale_factor = 1\<rparr>),
      ScalingFactor_new = (\<lambda>f n. Inr (reference_first 1))\<rparr>"

definition eb_example :: EwaldBlock where
  "eb_example =
     \<lparr>use_pbc = True, return_k_params = True, delta_k = None, k_rbf_values = None,
      down = \<lparr>linear_weight = [[1, 1]], dense_call = (\<lambda>v. v)\<rparr>,
      up = \<lparr>linear_weight = [[1], [2]], dense_call = (\<lambda>v. v)\<rparr>,
      pre_residual = (\<lambda>v. v), ewald_layers = [\<lambda>v. v],
      ewald_scale_sum = None, kfilter = None\<rparr>"

definition eb_example_aperiodic :: EwaldBlock where
  "eb_example_aperiodic =
     \<lparr>use_pbc = False, return_k_params = True, delta_k = Some 2,
      k_rbf_values = Some [[1, 2], [1, 2]],
      down = \<lparr>linear_weight = [[1, 1]], dense_call = (\<lambda>v. v)\<rparr>,
      up = \<lparr>linear_weight = [[1], [2]], dense_call = (\<lambda>v. v)\<rparr>,
      pre_residual = (\<lambda>v. v), ewald_layers = [\<lambda>v. v],
      ewald_scale_sum = None, kfilter = None\<rparr>"

section \<open>Properties\<close>

subsection \<open>Name resolution and construction\<close>

lemma then_do_simps [simp]:
  "then_do (Inl e) f = Inl e" "then_do (Inr v) f = f v"
  by (simp_all add: then_do_def)

lemma then_do_Inr_iff:
  "then_do r f = Inr y \<longleftrightarrow> (\<exists>v. r = Inr v \<and> f v = Inr y)"
  by (cases r) simp_all

lemma module_globals_eq:
  "module_globals =
     [''torch'', ''scatter'', ''Dense'', ''ResidualLayer'', ''ScaleFactor'', ''EwaldBlock'',
      ''HadamardBlock'']"
  by (simp add: module_globals_def module_body_def)

lemma ScalingFactor_unbound:
  "resolve hb_init_locals ''ScalingFactor'' = Inl (NameError ''ScalingFactor'')"
  by (simp add: resolve_def module_globals_eq hb_init_locals_def builtins_def)

lemma resolve_global: "n \<in> set module_globals \<Longrightarrow> resolve ls n = Inr ()"
  by (simp add: resolve_def)

lemma resolve_names:
  "resolve ls ''Dense'' = Inr ()" "resolve ls ''ResidualLayer'' = Inr ()"
  "resolve ls ''ScaleFactor'' = Inr ()" "resolve ls ''torch'' = Inr ()"
  by (simp_all add: resolve_global module_globals_eq)

lemma resolve_builtin:
  "resolve ls ''super'' = Inr ()" "resolve ls ''range'' = Inr ()"
  by (simp_all add: resolve_def builtins_def)

lemma collect_all:
  assumes "collect (map f xs) = Inr vs" and "\<And>x v. f x = Inr v \<Longrightarrow> P v"
  shows "list_all P vs"
  using assms(1)
proof (induction xs arbitrary: vs)
  case Nil
  then show ?case by simp
next
  case (Cons x xs)
  then obtain v ws where "f x = Inr v" "collect (map f xs) = Inr ws" "vs = v # ws"
    by (auto simp: then_do_Inr_iff)
  with Cons.IH assms(2) show ?case by simp
qed

lemma get_mlp_ok:
  assumes "collaborators_ok C" "get_mlp C site n n nHidden activation = Inr ls"
  shows "list_all (layer_ok (nat n)) ls"
proof -
  from assms(2) obtain d res where
    d: "Dense_new C (site @ ''.dense1'') n n activation False = Inr d"
    and res: "collect (map (\<lambda>i. then_do (resolve get_mlp_locals ''ResidualLayer'') (\<lambda>_.
                                   ResidualLayer_new C site i n 2 activation))
                          [0..<nat nHidden]) = Inr res"
    and ls: "ls = dense_call d # res"
    by (auto simp: get_mlp_def then_do_Inr_iff)
  have "layer_ok (nat n) (dense_call d)"
    using assms(1) d by (auto simp: collaborators_ok_def layer_ok_def)
  moreover have "list_all (layer_ok (nat n)) res"
  proof (rule collect_all[OF res])
    fix i v
    assume "then_do (resolve get_mlp_locals ''ResidualLayer'') (\<lambda>_.
              ResidualLayer_new C site i n 2 activation) = Inr v"
    then have "ResidualLayer_new C site i n 2 activation = Inr v"
      by (simp add: resolve_names)
    then show "layer_ok (nat n) v"
      using assms(1) by (auto simp: collaborators_ok_def)
  qed
  ultimately show ?thesis by (simp add: ls)
qed

text \<open>
  With constructors that keep their contract, the layers of every constructed
  \<^verbatim>\<open>EwaldBlock\<close> map rows of the embedding size to rows of the embedding size, and the
  block carries the flags it was given and no filter yet.
\<close>

lemma EwaldBlock_init_wf:
  assumes "collaborators_ok C"
      and "EwaldBlock_init C sd emb_size_atom downprojection_size num_hidden activation
             name pbc dk rbf ret = Inr blk"
  shows "wf_EwaldBlock (nat emb_size_atom) blk
         \<and> use_pbc blk = pbc \<and> return_k_params blk = ret \<and> kfilter blk = None"
proof -
  from assms(2) obtain u p ls sc where
    p: "ResidualLayer_new C ''pre_residual'' 0 emb_size_atom 2 activation = Inr p"
    and ls: "get_mlp C ''ewald_layers'' emb_size_atom emb_size_atom num_hidden activation
               = Inr ls"
    and blk: "blk = \<lparr>use_pbc = pbc, return_k_params = ret, delta_k = dk, k_rbf_values = rbf,
                     down = sd, up = u, pre_residual = p, ewald_layers = ls,
                     ewald_scale_sum = sc, kfilter = None\<rparr>"
    by (auto simp: EwaldBlock_init_def then_do_Inr_iff)
  have "layer_ok (nat emb_size_atom) p"
    using assms(1) p by (auto simp: collaborators_ok_def)
  with get_mlp_ok[OF assms(1) ls] show ?thesis
    by (simp add: blk wf_EwaldBlock_def)
qed

lemma lib_example_ok: "collaborators_ok lib_example"
  by (auto simp: collaborators_ok_def lib_example_def layer_ok_def split: if_splits)

lemma EwaldBlock_init_example:
  "\<exists>blk. EwaldBlock_init lib_example sd 2 1 1 None (Some ''ewald'') True None None True
           = Inr blk"
  by (simp add: EwaldBlock_init_def get_mlp_def resolve_names resolve_builtin
      lib_example_def)

text \<open>
  C10. (On the module read with its explanatory text as comments; as committed it does
  not parse, and nothing can be constructed.) Constructing a HadamardBlock never
  succeeds, whatever the constructor arguments, so its forward method is never reached
  on a constructed instance. When the statement
  \<^verbatim>\<open>self.dense_bf = Dense(...)\<close>, which comes first, returns, the failure is the NameError
  for \<^verbatim>\<open>ScalingFactor\<close>: the name is bound neither by the module's imports and class
  definitions, nor locally, nor as a built-in (only \<^verbatim>\<open>ScaleFactor\<close> is imported). When
  \<^verbatim>\<open>Dense(...)\<close> itself raises, that error is the failure.
\<close>

theorem HadamardBlock_init_fails:
  "(\<forall>blk. HadamardBlock_init C emb_size_atom emb_size_bf nHidden activation scale_file name
            \<noteq> Inr blk)
   \<and> (\<forall>d. Dense_new C ''dense_bf'' emb_size_bf emb_size_atom None False = Inr d \<longrightarrow>
          HadamardBlock_init C emb_size_atom emb_size_bf nHidden activation scale_file name
            = Inl (NameError ''ScalingFactor''))
   \<and> (\<forall>e. Dense_new C ''dense_bf'' emb_size_bf emb_size_atom None False = Inl e \<longrightarrow>
          HadamardBlock_init C emb_size_atom emb_size_bf nHidden activation scale_file name
            = Inl e)
   \<and> ''ScalingFactor'' \<notin> set module_globals \<and> ''ScaleFactor'' \<in> set module_globals"
  by (cases "Dense_new C ''dense_bf'' emb_size_bf emb_size_atom None False")
    (simp_all add: HadamardBlock_init_def resolve_builtin resolve_names ScalingFactor_unbound
      module_globals_eq)

theorem HadamardBlock_init_fails_witness:
  "Dense_new lib_example ''dense_bf'' 1 2 None False
     = Inr \<lparr>linear_weight = [[0], [0]], dense_call = (\<lambda>v. [0, 0])\<rparr>
   \<and> HadamardBlock_init lib_example 2 1 0 None None ''hadamard_atom_update''
     = Inl (NameError ''ScalingFactor'')"
proof -
  have d: "Dense_new lib_example ''dense_bf'' 1 2 None False
             = Inr \<lparr>linear_weight = [[0], [0]], dense_call = (\<lambda>v. [0, 0])\<rparr>"
    by (simp add: lib_example_def numeral_2_eq_2)
  from HadamardBlock_init_fails[of lib_example 2 1 0 None None "''hadamard_atom_update''"] d
  show ?thesis by simp
qed

text \<open>
  With sizes zero, \<^verbatim>\<open>Dense(...)\<close> raises before \<^verbatim>\<open>ScalingFactor\<close> is looked up, and the
  construction fails with that error and not with a NameError.
\<close>

theorem HadamardBlock_init_Dense_error:
  "HadamardBlock_init lib_example 0 0 0 None None ''hadamard_atom_update''
     = Inl ZeroDivisionError
   \<and> HadamardBlock_init lib_example 0 0 0 None None ''hadamard_atom_update''
     \<noteq> Inl (NameError ''ScalingFactor'')"
  by (simp add: HadamardBlock_init_def resolve_builtin resolve_names lib_example_def)

subsection \<open>HadamardBlock.forward\<close>

lemma scatter_step_length: "length (scatter_step rnd e out) = length out"
  by (simp add: scatter_step_def)

lemma fold_scatter_length: "length (fold (scatter_step rnd) es out) = length out"
  by (induction es arbitrary: out) (simp_all add: scatter_step_length)

lemma fold_scatter_untouched:
  "int a \<notin> fst ` set es \<Longrightarrow> list_all (\<lambda>e. 0 \<le> fst e) es
     \<Longrightarrow> fold (scatter_step rnd) es out ! a = out ! a"
proof (induction es arbitrary: out)
  case Nil
  then show ?case by simp
next
  case (Cons e es)
  from Cons.prems have ne: "nat (fst e) \<noteq> a" by auto
  have "fold (scatter_step rnd) (e # es) out ! a = scatter_step rnd e out ! a"
    using Cons by simp
  also have "\<dots> = out ! a" using ne by (simp add: scatter_step_def)
  finally show ?case .
qed











lemma permute_length [simp]: "length (permute p xs) = length p"
  by (simp add: permute_def)












text \<open>
  C8. The aggregate that \<^verbatim>\<open>HadamardBlock.forward\<close> forms before the scale and update
  steps has one row per atom, and the row of every atom that is the target of no edge is
  the all-zero vector, in every number format.
\<close>

theorem aggregate_zero_rows:
  assumes "aggregate rnd blk h bf idx_s idx_t = Inr x2"
  shows "length x2 = length h \<and>
         (\<forall>a<length h. int a \<notin> set idx_t \<longrightarrow>
            x2 ! a = replicate (ncols (map (hb_pre_residual blk) h)) 0)"
proof -
  obtain x where x: "messages rnd blk h bf idx_s = Inr x"
    and s: "scatter_sum rnd (ncols (map (hb_pre_residual blk) h)) x idx_t (length h) = Inr x2"
    using assms by (auto simp: aggregate_def then_do_Inr_iff)
  let ?E = "ncols (map (hb_pre_residual blk) h)"
  from s have x2: "x2 = fold (scatter_step rnd) (zip idx_t x)
                          (replicate (length h) (replicate ?E 0))"
    and rng: "list_all (\<lambda>i. 0 \<le> i \<and> i < int (length h)) idx_t"
    by (auto simp: scatter_sum_def split: if_splits)
  have len: "length x2 = length h" by (simp add: x2 fold_scatter_length)
  have "x2 ! a = replicate ?E 0" if a: "a < length h" and na: "int a \<notin> set idx_t" for a
  proof -
    have 1: "int a \<notin> fst ` set (zip idx_t x)"
      using na by (auto dest: set_zip_leftD)
    have 2: "list_all (\<lambda>e. 0 \<le> fst e) (zip idx_t x)"
      using rng by (auto simp: list_all_iff dest: set_zip_leftD)
    show ?thesis
      using a by (simp add: x2 fold_scatter_untouched[OF 1 2])
  qed
  with len show ?thesis by blast
qed

theorem aggregate_zero_rows_witness:
  "aggregate (\<lambda>v. v) (hb_example (reference_first 1)) [[1], [2]] [[3]] [0] [0]
     = Inr [[3], [0]]
   \<and> length [[3], [0::real]] = length [[1], [2::real]]
   \<and> [[3], [0::real]] ! 1
       = replicate (ncols (map (hb_pre_residual (hb_example (reference_first 1)))
                             [[1], [2]])) 0"
proof -
  have e: "aggregate (\<lambda>v. v) (hb_example (reference_first 1)) [[1], [2]] [[3]] [0] [0]
             = Inr [[3], [0]]"
    by (simp add: aggregate_def messages_def index_select_def scatter_sum_def hb_example_def
        ncols_def scatter_step_def radd_def rmul_def)
  from aggregate_zero_rows[OF e, THEN conjunct2, rule_format, of 1] have
    "[[3], [0::real]] ! 1
       = replicate (ncols (map (hb_pre_residual (hb_example (reference_first 1)))
                             [[1], [2]])) 0"
    by simp
  with e show ?thesis by simp
qed








subsection \<open>EwaldBlock.forward\<close>

text \<open>
  The example block on one atom at the origin with two reciprocal vectors: the dot
  products vanish, the structure factor is the embedding, and the update is 0.01 times
  the sum over the two rows of the filter times the embedding.
\<close>

lemma eb_example_kfilter: "compute_kfilter eb_example 1 = Inr [[[1, 2], [1, 2]]]"
  by (simp add: compute_kfilter_def eb_example_def matmul_def ncols_def transpose_m_def
      expand_batch_def upt_rec vmul_def)

lemma eb_example_dot:
  "compute_dot [[[1, 0, 0], [0, 1, 0]]] [[0, 0, 0]] [0] = Inr [[0, 0]]"
  by (simp add: compute_dot_def index_select_def vmul_def)

lemma eb_example_sum:
  "ewald_sum 2 2 [[1, 2]] [[1, 1]] [[0, 0]] [[[1, 2], [1, 2]]] 1 [0] = Inr [[0.02, 0.08]]"
  by (simp add: ewald_sum_def structure_factor_def is_mat_def
      index_add_def new_zeros_def weighted_def index_add_step_def madd_def vadd_def
      tmul3_def vmul_def index_select_def back_transform_def atom_update_def sum_rows_def
      numeral_2_eq_2)

lemma eb_example_forward:
  "forward eb_example [[1, 2]] [[0, 0, 0]] [[[1, 0, 0], [0, 1, 0]]] 1 [0] None None
     = Inr (UpdateK [[0.02, 0.08]] [[0, 0]] (Scalar 1),
            eb_example\<lparr>kfilter := Some [[[1, 2], [1, 2]]]\<rparr>)"
proof -
  have d: "compute_damping eb_example x k = Inr (Scalar 1)" for x k
    by (simp add: compute_damping_def eb_example_def)
  have p: "pre_residual eb_example v = v" for v
    by (simp add: eb_example_def)
  have l: "apply_layers (ewald_layers eb_example) (rescale (ewald_scale_sum eb_example) u w) = u"
    for u w
    by (simp add: eb_example_def apply_layers_def rescale_def)
  have r: "return_k_params eb_example" by (simp add: eb_example_def)
  have n: "ncols [[a, b]] = 2" for a b :: real by (simp add: ncols_def)
  show ?thesis
    by (simp add: forward_def Let_def resolve_dot_def resolve_damping_def eb_example_dot
        eb_example_kfilter d p l r damped_def n eb_example_sum)
qed

lemma compute_kfilter_upd [simp]: "compute_kfilter (blk\<lparr>kfilter := kf0\<rparr>) B = compute_kfilter blk B"
  by (simp add: compute_kfilter_def split: option.split)

lemma compute_damping_upd [simp]: "compute_damping (blk\<lparr>kfilter := kf0\<rparr>) x k = compute_damping blk x k"
  by (simp add: compute_damping_def split: option.split)

lemma resolve_damping_upd [simp]: "resolve_damping (blk\<lparr>kfilter := kf0\<rparr>) x k sd = resolve_damping blk x k sd"
  by (simp add: resolve_damping_def split: option.split)

lemma forward_upd:
  "forward (blk\<lparr>kfilter := kf0\<rparr>) h x k B bs dot sd = forward blk h x k B bs dot sd"
  unfolding forward_def Let_def
  by (simp cong: if_cong)

lemma forward_state:
  "forward blk h x k B bs dot sd = Inr (r, blk') \<Longrightarrow> \<exists>kf. compute_kfilter blk B = Inr kf \<and> blk' = blk\<lparr>kfilter := Some kf\<rparr>"
  unfolding forward_def Let_def
  by (auto simp: then_do_Inr_iff split: if_splits)

lemma forward_returned:
  "forward blk h x k B bs dot sd = Inr (UpdateK u d s, blk') \<Longrightarrow> resolve_dot k x bs dot = Inr d \<and> resolve_damping blk x k sd = Inr s"
  unfolding forward_def Let_def
  by (auto simp: then_do_Inr_iff split: if_splits)

lemma forward_supplied:
  assumes "resolve_dot k x bs dot = Inr d" "resolve_damping blk x k sd = Inr s"
  shows "forward blk h x k B bs (Some d) (Some s) = forward blk h x k B bs dot sd"
  using assms unfolding forward_def Let_def
  by (simp add: resolve_dot_def resolve_damping_def)

text \<open>
  C1. A call of \<^verbatim>\<open>forward\<close> without dot products and damping factor returns them; a
  second call that is given these values back returns exactly what a second call that
  computes them again returns (and what the first call returned).
\<close>

theorem forward_reuse:
  assumes "forward blk h x k num_batch batch_seg None None = Inr (UpdateK u d s, blk1)"
  shows "forward blk1 h x k num_batch batch_seg (Some d) (Some s)
           = forward blk1 h x k num_batch batch_seg None None
         \<and> forward blk1 h x k num_batch batch_seg (Some d) (Some s) = Inr (UpdateK u d s, blk1)"
proof -
  obtain kf where kf: "compute_kfilter blk num_batch = Inr kf" and b1: "blk1 = blk\<lparr>kfilter := Some kf\<rparr>"
    using forward_state[OF assms] by blast
  have rd: "resolve_dot k x batch_seg None = Inr d" and rs: "resolve_damping blk1 x k None = Inr s"
    using forward_returned[OF assms] by (simp_all add: b1)
  have 1: "forward blk1 h x k num_batch batch_seg (Some d) (Some s)
           = forward blk1 h x k num_batch batch_seg None None"
    by (rule forward_supplied[OF rd rs])
  have "forward blk1 h x k num_batch batch_seg None None = forward blk h x k num_batch batch_seg None None"
    by (simp add: b1 forward_upd)
  with 1 assms show ?thesis by simp
qed


theorem forward_reuse_witness:
  "forward eb_example [[1, 2]] [[0, 0, 0]] [[[1, 0, 0], [0, 1, 0]]] 1 [0] None None
     = Inr (UpdateK [[0.02, 0.08]] [[0, 0]] (Scalar 1),
            eb_example\<lparr>kfilter := Some [[[1, 2], [1, 2]]]\<rparr>)
   \<and> forward (eb_example\<lparr>kfilter := Some [[[1, 2], [1, 2]]]\<rparr>) [[1, 2]] [[0, 0, 0]]
        [[[1, 0, 0], [0, 1, 0]]] 1 [0] (Some [[0, 0]]) (Some (Scalar 1))
     = forward (eb_example\<lparr>kfilter := Some [[[1, 2], [1, 2]]]\<rparr>) [[1, 2]] [[0, 0, 0]]
        [[[1, 0, 0], [0, 1, 0]]] 1 [0] None None"
  using forward_reuse[OF eb_example_forward] eb_example_forward by simp


lemma ncols_is_mat: "is_mat n m t \<Longrightarrow> 0 < n \<Longrightarrow> ncols t = m"
  by (cases t) (simp_all add: is_mat_def ncols_def)

lemma vadd_length [simp]: "length (vadd u v) = min (length u) (length v)"
  by (simp add: vadd_def)

lemma vmul_length [simp]: "length (vmul u v) = min (length u) (length v)"
  by (simp add: vmul_def)

lemma is_mat_nth: "is_mat n m t \<Longrightarrow> i < n \<Longrightarrow> length (t ! i) = m"
  by (simp add: is_mat_def list_all_length)

lemma is_matI: "length t = n \<Longrightarrow> (\<And>i. i < n \<Longrightarrow> length (t ! i) = m) \<Longrightarrow> is_mat n m t"
  by (simp add: is_mat_def list_all_length)

lemma madd_is_mat: "is_mat K E a \<Longrightarrow> is_mat K E b \<Longrightarrow> is_mat K E (madd a b)"
  by (simp add: is_mat_def madd_def list_all_length)

lemma new_zeros_shape: "list_all (is_mat K E) (new_zeros B K E)"
  by (simp add: new_zeros_def list_all_length is_mat_def)

lemma index_add_step_shape:
  assumes "list_all (is_mat K E) acc" "is_mat K E (snd e)"
  shows "list_all (is_mat K E) (index_add_step e acc)"
proof -
  have "is_mat K E (index_add_step e acc ! i)" if "i < length acc" for i
  proof (cases "i = nat (fst e)")
    case True
    then show ?thesis
      using that assms by (simp add: index_add_step_def madd_is_mat list_all_length)
  next
    case False
    then show ?thesis
      using that assms by (simp add: index_add_step_def list_all_length)
  qed
  then show ?thesis by (simp add: list_all_length index_add_step_def)
qed

lemma fold_index_add_shape:
  assumes "list_all (is_mat K E) acc" "list_all (\<lambda>e. is_mat K E (snd e)) es"
  shows "list_all (is_mat K E) (fold index_add_step es acc)"
  using assms
  by (induction es arbitrary: acc) (simp_all add: index_add_step_shape)

lemma fold_index_add_length [simp]: "length (fold index_add_step es acc) = length acc"
  by (induction es arbitrary: acc) (simp_all add: index_add_step_def)

lemma weighted_shape:
  assumes "is_mat N K w" "is_mat N E hres"
  shows "list_all (is_mat K E) (weighted hres w)" and "length (weighted hres w) = N"
  using assms
  by (auto simp: weighted_def is_mat_def list_all_iff dest: set_zip_leftD set_zip_rightD)

lemma structure_factor_shape:
  assumes "structure_factor K E hres w B bs = Inr sf"
  shows "list_all (is_mat K E) sf \<and> length sf = nat B \<and> length bs = length hres
         \<and> is_mat (length hres) K w \<and> is_mat (length hres) E hres
         \<and> list_all (\<lambda>i. 0 \<le> i \<and> i < B) bs"
proof -
  from assms have w: "is_mat (length hres) K w" and h: "is_mat (length hres) E hres"
    and ia: "index_add (new_zeros (nat B) K E) bs (weighted hres w) = Inr sf" and B: "0 \<le> B"
    by (auto simp: structure_factor_def is_mat_def split: if_splits)
  from ia have sf: "sf = fold index_add_step (zip bs (weighted hres w)) (new_zeros (nat B) K E)"
    and len: "length bs = length (weighted hres w)"
    and rng: "list_all (\<lambda>i. 0 \<le> i \<and> i < int (length (new_zeros (nat B) K E))) bs"
    by (auto simp: index_add_def split: if_splits)
  have "list_all (\<lambda>e. is_mat K E (snd e)) (zip bs (weighted hres w))"
    using weighted_shape(1)[OF w h] by (auto simp: list_all_iff dest: set_zip_rightD)
  then have "list_all (is_mat K E) sf"
    unfolding sf by (intro fold_index_add_shape new_zeros_shape)
  moreover have "length sf = nat B" by (simp add: sf new_zeros_def)
  moreover have "length bs = length hres" using len weighted_shape(2)[OF w h] by simp
  moreover have "list_all (\<lambda>i. 0 \<le> i \<and> i < B) bs"
    using rng B by (simp add: new_zeros_def)
  ultimately show ?thesis using w h by simp
qed

lemma sum_rows_length:
  "list_all (\<lambda>r. length r = E) rows \<Longrightarrow> length (sum_rows E rows) = E"
  by (induction rows) (simp_all add: sum_rows_def)

lemma atom_update_length:
  assumes "list_all (\<lambda>r. length r = E) fr" "list_all (\<lambda>r. length r = E) fi"
  shows "length (atom_update E fr fi c s) = E"
proof -
  have "list_all (\<lambda>r. length r = E)
          (madd (map2 (\<lambda>r a. map (\<lambda>v. v * a) r) fr c) (map2 (\<lambda>r b. map (\<lambda>v. v * b) r) fi s))"
    using assms by (simp add: madd_def list_all_length)
  then show ?thesis by (simp add: atom_update_def sum_rows_length)
qed

lemma tmul3_nth:
  "b < length a \<Longrightarrow> b < length kf \<Longrightarrow> tmul3 a kf ! b = map2 vmul (a ! b) (kf ! b)"
  by (simp add: tmul3_def)

lemma tmul3_rows:
  assumes "list_all (is_mat K E) a" "list_all (is_mat K E) kf"
  shows "list_all (is_mat K E) (tmul3 a kf)"
  using assms
  by (auto simp: tmul3_def list_all_length is_mat_def)

lemma index_select_rows:
  assumes "index_select t idx = Inr sel" "list_all P t"
  shows "list_all P sel \<and> length sel = length idx"
  using assms by (auto simp: index_select_def list_all_length split: if_splits)

lemma damped_length: "damped f sd dot = Inr w \<Longrightarrow> length w = length dot"
  by (auto simp: damped_def list_all2_lengthD split: damping.splits if_splits)

lemma ewald_sum_shape:
  assumes "ewald_sum K E hres wc ws kf B bs = Inr u"
  shows "is_mat (length hres) E u"
proof -
  let ?K = K and ?E = E
  from assms obtain sfr sfi selr seli where
    sfr: "structure_factor ?K ?E hres wc B bs = Inr sfr"
    and sfi: "structure_factor ?K ?E hres ws B bs = Inr sfi"
    and chk: "hres = [] \<or> list_all (is_mat ?K ?E) kf"
    and selr: "index_select (tmul3 sfr kf) bs = Inr selr"
    and seli: "index_select (tmul3 sfi kf) bs = Inr seli"
    and u: "u = back_transform ?E selr seli wc ws"
    by (auto simp: ewald_sum_def Let_def then_do_Inr_iff split: if_splits)
  note R = structure_factor_shape[OF sfr] and I = structure_factor_shape[OF sfi]
  show ?thesis
  proof (cases "hres = []")
    case True
    then have "bs = []" using R by simp
    then have "selr = []" using selr by (auto simp: index_select_def)
    then show ?thesis using True by (simp add: u back_transform_def is_mat_def)
  next
    case False
    with chk have kf: "list_all (is_mat ?K ?E) kf" by simp
    have r1: "list_all (is_mat ?K ?E) selr" "length selr = length bs"
      using index_select_rows[OF selr tmul3_rows[OF _ kf]] R by simp_all
    have i1: "list_all (is_mat ?K ?E) seli" "length seli = length bs"
      using index_select_rows[OF seli tmul3_rows[OF _ kf]] I by simp_all
    have lw: "length wc = length hres" "length ws = length hres"
      using R I by (simp_all add: is_mat_def)
    have lb: "length bs = length hres" using R by simp
    have "length u = length hres"
      by (simp add: u back_transform_def r1 i1 lw lb)
    moreover have "length (u ! i) = ?E" if "i < length hres" for i
    proof -
      have "u ! i = atom_update ?E (selr ! i) (seli ! i) (wc ! i) (ws ! i)"
        using that by (simp add: u back_transform_def r1 i1 lw lb)
      moreover have "list_all (\<lambda>r. length r = ?E) (selr ! i)" "list_all (\<lambda>r. length r = ?E) (seli ! i)"
        using r1 i1 that lb by (simp_all add: list_all_length is_mat_def)
      ultimately show ?thesis by (simp add: atom_update_length)
    qed
    ultimately show ?thesis by (rule is_matI)
  qed
qed

lemma rescale_shape: "is_mat N E u \<Longrightarrow> is_mat N E (rescale sc u h)"
  by (auto simp: rescale_def ScaleFactor_call_def is_mat_def list_all_iff split: option.splits)

lemma apply_layers_shape:
  assumes "list_all (layer_ok E) ls" "is_mat N E u"
  shows "is_mat N E (apply_layers ls u)"
  using assms unfolding apply_layers_def
proof (induction ls arbitrary: u)
  case Nil
  then show ?case by simp
next
  case (Cons l ls)
  have "is_mat N E (map l u)"
    using Cons.prems by (auto simp: is_mat_def list_all_iff layer_ok_def)
  with Cons show ?case by simp
qed

lemma hres_shape:
  assumes "layer_ok E p" "is_mat N E h"
  shows "is_mat N E (map p h)"
  using assms by (auto simp: is_mat_def list_all_iff layer_ok_def)

text \<open>
  C2. For a block of embedding size \<open>E\<close> and an embedding \<open>h\<close> of shape \<open>(N, E)\<close>, the
  update returned by \<^verbatim>\<open>forward\<close> has shape \<open>(N, E)\<close>, whatever the number of reciprocal
  vectors and of structures; with \<^verbatim>\<open>return_k_params\<close> the result carries the dot products
  and the damping factor used, and otherwise it is the update alone.
\<close>

theorem forward_shape:
  assumes wf: "wf_EwaldBlock E blk" and h: "is_mat N E h"
      and fw: "forward blk h x k num_batch batch_seg dot sinc_damping = Inr (r, blk')"
  shows "is_mat N E (update_of r)
         \<and> (\<exists>d s. resolve_dot k x batch_seg dot = Inr d
                \<and> resolve_damping blk x k sinc_damping = Inr s
                \<and> r = (if return_k_params blk then UpdateK (update_of r) d s
                       else Update (update_of r)))"
proof -
  let ?hres = "map (pre_residual blk) h"
  from fw obtain d s kf wc ws u0 where d: "resolve_dot k x batch_seg dot = Inr d"
    and s: "resolve_damping blk x k sinc_damping = Inr s"
    and es: "ewald_sum (ncols d) (ncols ?hres) ?hres wc ws kf num_batch batch_seg = Inr u0"
    and r: "r = (if return_k_params blk
                 then UpdateK (apply_layers (ewald_layers blk) (rescale (ewald_scale_sum blk) u0 h)) d s
                 else Update (apply_layers (ewald_layers blk) (rescale (ewald_scale_sum blk) u0 h)))"
    by (auto simp: forward_def Let_def then_do_Inr_iff split: if_splits)
  have hr: "is_mat N E ?hres" using wf h by (simp add: wf_EwaldBlock_def hres_shape)
  have "is_mat N E u0"
  proof (cases "N = 0")
    case True
    then show ?thesis using ewald_sum_shape[OF es] h by (simp add: is_mat_def)
  next
    case False
    then have "ncols ?hres = E" using hr by (intro ncols_is_mat) auto
    then show ?thesis using ewald_sum_shape[OF es] hr by (simp add: is_mat_def)
  qed
  then have "is_mat N E (apply_layers (ewald_layers blk) (rescale (ewald_scale_sum blk) u0 h))"
    using wf by (intro apply_layers_shape rescale_shape) (simp_all add: wf_EwaldBlock_def)
  then show ?thesis using d s r by auto
qed


lemma matmul_nth:
  assumes "matmul A B = Inr W" "i < length A" "j < ncols B"
  shows "W ! i ! j = (\<Sum>l<length B. A ! i ! l * B ! l ! j)"
proof -
  from assms(1) have W: "W = map (\<lambda>r. map (\<lambda>j. sum_list (map2 (\<lambda>a b. a * b ! j) r B)) [0..<ncols B]) A"
    and len: "list_all (\<lambda>r. length r = length B) A"
    by (auto simp: matmul_def split: if_splits)
  from len assms(2) have li: "length (A ! i) = length B"
    by (simp add: list_all_length)
  have "W ! i ! j = sum_list (map2 (\<lambda>a b. a * b ! j) (A ! i) B)"
    using assms(2,3) by (simp add: W)
  also have "\<dots> = (\<Sum>l = 0..<length B. map2 (\<lambda>a b. a * b ! j) (A ! i) B ! l)"
    using li by (simp add: sum_list_sum_nth)
  also have "\<dots> = (\<Sum>l = 0..<length B. A ! i ! l * B ! l ! j)"
    using li by (intro sum.cong) simp_all
  finally show ?thesis by (simp add: lessThan_atLeast0)
qed

lemma matmul_shape:
  assumes "matmul A B = Inr W"
  shows "is_mat (length A) (ncols B) W"
  using assms by (auto simp: matmul_def is_mat_def list_all_iff split: if_splits)

lemma transpose_m_nth:
  assumes "j < ncols M" "i < length M"
  shows "transpose_m M ! j ! i = M ! i ! j"
  using assms by (simp add: transpose_m_def)

lemma compute_kfilter_pbc:
  assumes "use_pbc blk" "compute_kfilter blk num_batch = Inr kf"
  shows "\<exists>W. matmul (linear_weight (up blk)) (linear_weight (down blk)) = Inr W
             \<and> kf = replicate (nat num_batch) (transpose_m W) \<and> 0 \<le> num_batch"
  using assms by (auto simp: compute_kfilter_def expand_batch_def then_do_Inr_iff split: if_splits)

text \<open>
  C3. Under periodic boundary conditions a call of \<^verbatim>\<open>forward\<close> leaves in \<^verbatim>\<open>kfilter\<close> the
  transposed matrix product of the upprojection and downprojection weights, the same
  matrix for every structure of the batch: entry \<open>(b, j, i)\<close> is the sum over \<open>l\<close> of
  \<open>up[i][l] * down[l][j]\<close>. The value found in \<^verbatim>\<open>kfilter\<close> before the call has no
  influence: the filter is computed from the weights the block has at the call.
\<close>

theorem forward_kfilter_pbc:
  assumes "use_pbc blk"
      and "forward blk h x k num_batch batch_seg dot sinc_damping = Inr (r, blk')"
  shows "\<exists>W kf. matmul (linear_weight (up blk)) (linear_weight (down blk)) = Inr W
           \<and> kfilter blk' = Some kf
           \<and> kf = replicate (nat num_batch) (transpose_m W)
           \<and> (\<forall>b<nat num_batch. \<forall>j<ncols (linear_weight (down blk)).
                \<forall>i<length (linear_weight (up blk)).
                  kf ! b ! j ! i
                    = (\<Sum>l<length (linear_weight (down blk)).
                         linear_weight (up blk) ! i ! l * linear_weight (down blk) ! l ! j))
           \<and> forward (blk\<lparr>kfilter := old\<rparr>) h x k num_batch batch_seg dot sinc_damping
               = Inr (r, blk')"
proof -
  obtain kf where kf: "compute_kfilter blk num_batch = Inr kf"
    and b: "blk' = blk\<lparr>kfilter := Some kf\<rparr>"
    using forward_state[OF assms(2)] by blast
  obtain W where W: "matmul (linear_weight (up blk)) (linear_weight (down blk)) = Inr W"
    and k: "kf = replicate (nat num_batch) (transpose_m W)"
    using compute_kfilter_pbc[OF assms(1) kf] by blast
  let ?A = "linear_weight (up blk)" and ?B = "linear_weight (down blk)"
  have ent: "kf ! b ! j ! i = (\<Sum>l<length ?B. ?A ! i ! l * ?B ! l ! j)"
    if "b < nat num_batch" "j < ncols ?B" "i < length ?A" for b j i
  proof -
    have sh: "is_mat (length ?A) (ncols ?B) W" by (rule matmul_shape[OF W])
    then have nc: "ncols W = ncols ?B" using that(3) by (intro ncols_is_mat) auto
    have lw: "length W = length ?A" using sh by (simp add: is_mat_def)
    have "kf ! b ! j ! i = transpose_m W ! j ! i" using that(1) by (simp add: k)
    also have "\<dots> = W ! i ! j" using that nc lw by (simp add: transpose_m_nth)
    also have "\<dots> = (\<Sum>l<length ?B. ?A ! i ! l * ?B ! l ! j)"
      by (rule matmul_nth[OF W that(3,2)])
    finally show ?thesis .
  qed
  have "forward (blk\<lparr>kfilter := old\<rparr>) h x k num_batch batch_seg dot sinc_damping = Inr (r, blk')"
    using assms(2) by (simp add: forward_upd)
  with W k b ent show ?thesis by auto
qed

lemma sinc_0: "sinc 0 = 1" by (simp add: sinc_def)

text \<open>
  C4. Under periodic boundary conditions the damping factor that \<^verbatim>\<open>forward\<close> computes
  when none is supplied is the constant 1: it reads 1 at every atom and reciprocal vector,
  the damped cosine and sine are the cosine and sine, and it is the value returned.
\<close>

theorem damping_pbc:
  assumes "use_pbc blk"
  shows "resolve_damping blk x k None = Inr (Scalar 1)
         \<and> damping_at (Scalar 1) i j = 1
         \<and> damped f (Scalar 1) d = Inr (map (map f) d)
         \<and> (forward blk h x k num_batch batch_seg dot None = Inr (UpdateK u d' s, blk')
              \<longrightarrow> s = Scalar 1)"
  using assms forward_returned[of blk h x k num_batch batch_seg dot None u d' s blk']
  by (auto simp: resolve_damping_def compute_damping_def damped_def)

text \<open>
  C5. Without periodic boundary conditions and with voxel resolution \<open>dk\<close>, the damping
  factor that \<^verbatim>\<open>forward\<close> computes when none is supplied has, for every atom and every
  reciprocal vector, the value \<open>sinc(0.5 dk x0) sinc(0.5 dk x1) sinc(0.5 dk x2)\<close> of the
  atom's position; it is 1 for an atom at the origin.
\<close>

theorem damping_aperiodic:
  assumes "\<not> use_pbc blk" "delta_k blk = Some dk" "list_all (\<lambda>xi. 3 \<le> length xi) x"
  shows "\<exists>t. resolve_damping blk x k None = Inr (Damp t)
           \<and> is_mat (length x) (ncols k) t
           \<and> (\<forall>i<length x. \<forall>j<ncols k.
                damping_at (Damp t) i j
                  = sinc (0.5 * dk * x ! i ! 0) * sinc (0.5 * dk * x ! i ! 1)
                    * sinc (0.5 * dk * x ! i ! 2)
                \<and> (x ! i = [0, 0, 0] \<longrightarrow> damping_at (Damp t) i j = 1))"
  using assms
  by (auto simp: resolve_damping_def compute_damping_def is_mat_def list_all_iff sinc_0)


lemma eb_example_wf: "wf_EwaldBlock 2 eb_example"
  by (simp add: wf_EwaldBlock_def layer_ok_def eb_example_def)

theorem forward_shape_witness:
  "wf_EwaldBlock 2 eb_example \<and> is_mat 1 2 [[1, 2::real]]
   \<and> forward eb_example [[1, 2]] [[0, 0, 0]] [[[1, 0, 0], [0, 1, 0]]] 1 [0] None None
        = Inr (UpdateK [[0.02, 0.08]] [[0, 0]] (Scalar 1),
               eb_example\<lparr>kfilter := Some [[[1, 2], [1, 2]]]\<rparr>)
   \<and> is_mat 1 2 (update_of (UpdateK [[0.02, 0.08]] [[0, 0]] (Scalar 1)))"
proof -
  have h: "is_mat 1 2 [[1, 2::real]]" by (simp add: is_mat_def)
  from forward_shape[OF eb_example_wf h eb_example_forward] eb_example_wf h
    eb_example_forward
  show ?thesis by simp
qed

theorem forward_kfilter_pbc_witness:
  "use_pbc eb_example
   \<and> forward eb_example [[1, 2]] [[0, 0, 0]] [[[1, 0, 0], [0, 1, 0]]] 1 [0] None None
        = Inr (UpdateK [[0.02, 0.08]] [[0, 0]] (Scalar 1),
               eb_example\<lparr>kfilter := Some [[[1, 2], [1, 2]]]\<rparr>)
   \<and> matmul (linear_weight (up eb_example)) (linear_weight (down eb_example))
        = Inr [[1, 1], [2, 2]]
   \<and> kfilter (eb_example\<lparr>kfilter := Some [[[1, 2], [1, 2]]]\<rparr>)
        = Some (replicate (nat 1) (transpose_m [[1, 1], [2, 2]]))
   \<and> forward (eb_example\<lparr>kfilter := Some []\<rparr>) [[1, 2]] [[0, 0, 0]]
        [[[1, 0, 0], [0, 1, 0]]] 1 [0] None None
        = Inr (UpdateK [[0.02, 0.08]] [[0, 0]] (Scalar 1),
               eb_example\<lparr>kfilter := Some [[[1, 2], [1, 2]]]\<rparr>)"
proof -
  have p: "use_pbc eb_example" by (simp add: eb_example_def)
  have m: "matmul (linear_weight (up eb_example)) (linear_weight (down eb_example))
             = Inr [[1, 1], [2, 2]]"
    by (simp add: matmul_def eb_example_def ncols_def upt_rec)
  from forward_kfilter_pbc[OF p eb_example_forward, of "Some []"] p m eb_example_forward
  show ?thesis by auto
qed

theorem damping_pbc_witness:
  "use_pbc eb_example
   \<and> resolve_damping eb_example [[0, 0, 0]] [[[1, 0, 0], [0, 1, 0]]] None = Inr (Scalar 1)
   \<and> damping_at (Scalar 1) 0 1 = 1
   \<and> damped cos (Scalar 1) [[0, 0]] = Inr [[1, 1]]"
proof -
  have p: "use_pbc eb_example" by (simp add: eb_example_def)
  from damping_pbc[OF p, of "[[0, 0, 0]]" "[[[1, 0, 0], [0, 1, 0]]]" 0 1 cos "[[0, 0]]"] p
  show ?thesis by simp
qed

theorem damping_aperiodic_witness:
  "\<not> use_pbc eb_example_aperiodic \<and> delta_k eb_example_aperiodic = Some 2
   \<and> list_all (\<lambda>xi. 3 \<le> length xi) [[0, 0, 0], [1, 0, 0::real]]
   \<and> resolve_damping eb_example_aperiodic [[0, 0, 0], [1, 0, 0]] [[[1, 0, 0], [0, 1, 0]]] None
        = Inr (Damp [[1, 1], [0, 0]])"
proof -
  have a: "\<not> use_pbc eb_example_aperiodic" "delta_k eb_example_aperiodic = Some 2"
    by (simp_all add: eb_example_aperiodic_def)
  have x: "list_all (\<lambda>xi. 3 \<le> length xi) [[0, 0, 0], [1, 0, 0::real]]" by simp
  have e: "resolve_damping eb_example_aperiodic [[0, 0, 0], [1, 0, 0]]
             [[[1, 0, 0], [0, 1, 0]]] None = Inr (Damp [[1, 1], [0, 0]])"
    by (simp add: resolve_damping_def compute_damping_def eb_example_aperiodic_def ncols_def
        sinc_def numeral_2_eq_2)
  from damping_aperiodic[OF a x, of "[[[1, 0, 0], [0, 1, 0]]]"] a x e
  show ?thesis by simp
qed


subsection \<open>Batching\<close>

lemma zip_replicate_left: "length xs = n \<Longrightarrow> zip (replicate n a) xs = map (Pair a) xs"
  by (rule nth_equalityI) simp_all

lemma list_all2_replicate_left:
  "list_all2 P (replicate n a) xs \<longleftrightarrow> length xs = n \<and> list_all (P a) xs"
  by (auto simp: list_all2_conv_all_nth list_all_length)

lemma index_select_replicate:
  "0 \<le> c \<Longrightarrow> nat c < length t \<Longrightarrow> index_select t (replicate n c) = Inr (replicate n (t ! nat c))"
  by (auto simp: index_select_def list_all_iff)

lemma index_select_append:
  "index_select t i1 = Inr s1 \<Longrightarrow> index_select t i2 = Inr s2 \<Longrightarrow> index_select t (i1 @ i2) = Inr (s1 @ s2)"
  by (auto simp: index_select_def split: if_splits)

lemma ncols_append: "ncols (a @ b) = (if a = [] then ncols b else ncols a)"
  by (cases a) (simp_all add: ncols_def)

lemma fold_index_add_replicate:
  assumes "length src = n" "nat c < length acc"
  shows "fold index_add_step (zip (replicate n c) src) acc
           = acc[nat c := fold (\<lambda>s a. madd a s) src (acc ! nat c)]"
  using assms
proof (induction src arbitrary: n acc)
  case Nil
  then show ?case by simp
next
  case (Cons s src)
  then obtain m where n: "n = Suc m" and m: "length src = m" by (cases n) auto
  let ?acc = "index_add_step (c, s) acc"
  have l: "nat c < length ?acc" using Cons.prems by (simp add: index_add_step_def)
  have "fold index_add_step (zip (replicate n c) (s # src)) acc
          = fold index_add_step (zip (replicate m c) src) ?acc"
    by (simp add: n)
  also have "\<dots> = ?acc[nat c := fold (\<lambda>s a. madd a s) src (?acc ! nat c)]"
    by (rule Cons.IH[OF m l])
  also have "\<dots> = acc[nat c := fold (\<lambda>s a. madd a s) (s # src) (acc ! nat c)]"
    using Cons.prems by (simp add: index_add_step_def)
  finally show ?case .
qed

lemma weighted_length: "length w = length hres \<Longrightarrow> length (weighted hres w) = length hres"
  by (simp add: weighted_def)

lemma weighted_append:
  "length wA = length hA \<Longrightarrow> weighted (hA @ hB) (wA @ wB) = weighted hA wA @ weighted hB wB"
  by (simp add: weighted_def)

lemma structure_factor_single:
  assumes "is_mat (length hres) K w" "list_all (\<lambda>r. length r = E) hres"
  shows "structure_factor K E hres w 1 (replicate (length hres) 0)
           = Inr [fold (\<lambda>s a. madd a s) (weighted hres w) (replicate K (replicate E 0))]"
proof -
  have lw: "length (weighted hres w) = length hres"
    using assms by (simp add: weighted_length is_mat_def)
  have "fold index_add_step (zip (replicate (length hres) 0) (weighted hres w))
          [replicate K (replicate E 0)]
        = [replicate K (replicate E 0)]
            [nat 0 := fold (\<lambda>s a. madd a s) (weighted hres w) ([replicate K (replicate E 0)] ! nat 0)]"
    by (rule fold_index_add_replicate) (simp_all add: lw)
  then show ?thesis
    using assms lw
    by (simp add: structure_factor_def index_add_def new_zeros_def list_all_iff)
qed

lemma structure_factor_pair:
  assumes "is_mat (length hA) K wA" "list_all (\<lambda>r. length r = E) hA"
      and "is_mat (length hB) K wB" "list_all (\<lambda>r. length r = E) hB"
  shows "structure_factor K E (hA @ hB) (wA @ wB) 2
           (replicate (length hA) 0 @ replicate (length hB) 1)
           = Inr [fold (\<lambda>s a. madd a s) (weighted hA wA) (replicate K (replicate E 0)),
                  fold (\<lambda>s a. madd a s) (weighted hB wB) (replicate K (replicate E 0))]"
proof -
  let ?Z = "replicate K (replicate E (0::real))"
  let ?SA = "fold (\<lambda>s a. madd a s) (weighted hA wA) ?Z"
  let ?SB = "fold (\<lambda>s a. madd a s) (weighted hB wB) ?Z"
  have lA: "length wA = length hA" and lB: "length wB = length hB"
    using assms by (simp_all add: is_mat_def)
  have wlA: "length (weighted hA wA) = length hA" and wlB: "length (weighted hB wB) = length hB"
    using lA lB by (simp_all add: weighted_length)
  have 1: "fold index_add_step (zip (replicate (length hA) 0) (weighted hA wA)) [?Z, ?Z]
             = [?Z, ?Z][nat 0 := fold (\<lambda>s a. madd a s) (weighted hA wA) ([?Z, ?Z] ! nat 0)]"
    by (rule fold_index_add_replicate) (simp_all add: wlA)
  have 2: "fold index_add_step (zip (replicate (length hB) 1) (weighted hB wB)) [?SA, ?Z]
             = [?SA, ?Z][nat 1 := fold (\<lambda>s a. madd a s) (weighted hB wB) ([?SA, ?Z] ! nat 1)]"
    by (rule fold_index_add_replicate) (simp_all add: wlB)
  have "fold index_add_step
          (zip (replicate (length hA) 0 @ replicate (length hB) 1) (weighted (hA @ hB) (wA @ wB)))
          [?Z, ?Z] = [?SA, ?SB]"
    using 1 2 by (simp add: weighted_append[OF lA] wlA)
  moreover have "is_mat (length (hA @ hB)) K (wA @ wB)"
    using assms by (simp add: is_mat_def)
  moreover have "length (weighted (hA @ hB) (wA @ wB)) = length hA + length hB"
    by (simp add: weighted_append[OF lA] wlA wlB)
  moreover have "list_all (\<lambda>i. 0 \<le> i \<and> i < int (length [?Z, ?Z]))
                   (replicate (length hA) 0 @ replicate (length hB) 1)"
    by (auto simp: list_all_iff)
  ultimately show ?thesis
    using assms(2,4)
    by (simp add: structure_factor_def index_add_def new_zeros_def numeral_2_eq_2)
qed

lemma back_transform_append:
  assumes "length a1 = n" "length b1 = n" "length c1 = n" "length d1 = n"
  shows "back_transform E (a1 @ a2) (b1 @ b2) (c1 @ c2) (d1 @ d2)
           = back_transform E a1 b1 c1 d1 @ back_transform E a2 b2 c2 d2"
  using assms by (simp add: back_transform_def)

lemma structure_factor_cond:
  "structure_factor K E hres w B bs = Inr sf \<Longrightarrow>
     is_mat (length hres) K w \<and> list_all (\<lambda>r. length r = E) hres"
  by (auto simp: structure_factor_def split: if_splits)

lemma ewald_sum_single:
  assumes "ewald_sum K E hres wc ws [F] 1 (replicate (length hres) 0) = Inr u"
  shows "is_mat (length hres) K wc \<and> is_mat (length hres) K ws
         \<and> list_all (\<lambda>r. length r = E) hres \<and> (hres \<noteq> [] \<longrightarrow> is_mat K E F)
         \<and> u = back_transform E
               (replicate (length hres)
                  (map2 vmul (fold (\<lambda>s a. madd a s) (weighted hres wc) (replicate K (replicate E 0))) F))
               (replicate (length hres)
                  (map2 vmul (fold (\<lambda>s a. madd a s) (weighted hres ws) (replicate K (replicate E 0))) F))
               wc ws"
proof -
  from assms obtain sfr sfi where
    sfr: "structure_factor K E hres wc 1 (replicate (length hres) 0) = Inr sfr"
    and sfi: "structure_factor K E hres ws 1 (replicate (length hres) 0) = Inr sfi"
    by (auto simp: ewald_sum_def then_do_Inr_iff)
  note cr = structure_factor_cond[OF sfr] and ci = structure_factor_cond[OF sfi]
  have r: "structure_factor K E hres wc 1 (replicate (length hres) 0)
             = Inr [fold (\<lambda>s a. madd a s) (weighted hres wc) (replicate K (replicate E 0))]"
    using cr by (intro structure_factor_single) simp_all
  have i: "structure_factor K E hres ws 1 (replicate (length hres) 0)
             = Inr [fold (\<lambda>s a. madd a s) (weighted hres ws) (replicate K (replicate E 0))]"
    using ci by (intro structure_factor_single) simp_all
  show ?thesis
    using assms cr ci
    by (auto simp: ewald_sum_def r i tmul3_def index_select_replicate split: if_splits)
qed

lemma ewald_sum_pair:
  assumes "is_mat (length hA) K wcA" "is_mat (length hA) K wsA" "list_all (\<lambda>r. length r = E) hA"
      and "is_mat (length hB) K wcB" "is_mat (length hB) K wsB" "list_all (\<lambda>r. length r = E) hB"
      and "hA @ hB \<noteq> [] \<longrightarrow> is_mat K E F"
  shows "ewald_sum K E (hA @ hB) (wcA @ wcB) (wsA @ wsB) [F, F] 2
           (replicate (length hA) 0 @ replicate (length hB) 1)
         = Inr (back_transform E
               (replicate (length hA)
                  (map2 vmul (fold (\<lambda>s a. madd a s) (weighted hA wcA) (replicate K (replicate E 0))) F))
               (replicate (length hA)
                  (map2 vmul (fold (\<lambda>s a. madd a s) (weighted hA wsA) (replicate K (replicate E 0))) F))
               wcA wsA
              @ back_transform E
               (replicate (length hB)
                  (map2 vmul (fold (\<lambda>s a. madd a s) (weighted hB wcB) (replicate K (replicate E 0))) F))
               (replicate (length hB)
                  (map2 vmul (fold (\<lambda>s a. madd a s) (weighted hB wsB) (replicate K (replicate E 0))) F))
               wcB wsB)"
proof -
  let ?Z = "replicate K (replicate E (0::real))"
  let ?f = "\<lambda>h w. map2 vmul (fold (\<lambda>s a. madd a s) (weighted h w) ?Z) F"
  have r: "structure_factor K E (hA @ hB) (wcA @ wcB) 2
             (replicate (length hA) 0 @ replicate (length hB) 1)
           = Inr [fold (\<lambda>s a. madd a s) (weighted hA wcA) ?Z, fold (\<lambda>s a. madd a s) (weighted hB wcB) ?Z]"
    by (rule structure_factor_pair[OF assms(1,3,4,6)])
  have i: "structure_factor K E (hA @ hB) (wsA @ wsB) 2
             (replicate (length hA) 0 @ replicate (length hB) 1)
           = Inr [fold (\<lambda>s a. madd a s) (weighted hA wsA) ?Z, fold (\<lambda>s a. madd a s) (weighted hB wsB) ?Z]"
    by (rule structure_factor_pair[OF assms(2,3,5,6)])
  have sel: "index_select [X, Y] (replicate (length hA) 0 @ replicate (length hB) 1)
               = Inr (replicate (length hA) X @ replicate (length hB) Y)" for X Y :: mat
    by (rule index_select_append) (simp_all add: index_select_replicate)
  have l: "length wcA = length hA" "length wsA = length hA"
    using assms by (simp_all add: is_mat_def)
  have bt: "back_transform E (replicate (length hA) (?f hA wcA) @ replicate (length hB) (?f hB wcB))
              (replicate (length hA) (?f hA wsA) @ replicate (length hB) (?f hB wsB))
              (wcA @ wcB) (wsA @ wsB)
            = back_transform E (replicate (length hA) (?f hA wcA)) (replicate (length hA) (?f hA wsA)) wcA wsA
              @ back_transform E (replicate (length hB) (?f hB wcB)) (replicate (length hB) (?f hB wsB)) wcB wsB"
    by (rule back_transform_append[where n = "length hA"]) (simp_all add: l)
  have chk: "\<not> (hA @ hB \<noteq> [] \<and> \<not> list_all (is_mat K E) [F, F])"
    using assms(7) by auto
  show ?thesis
    unfolding ewald_sum_def r i
    using chk by (simp add: tmul3_def sel bt del: append_is_Nil_conv)
qed


lemma map2_replicate_left: "length xs = n \<Longrightarrow> map2 f (replicate n a) xs = map (f a) xs"
  by (simp add: zip_replicate_left)

lemma compute_dot_single:
  assumes "compute_dot [kA] xA (replicate n 0) = Inr dA"
  shows "length xA = n \<and> list_all (\<lambda>xi. list_all (\<lambda>kv. length kv = length xi) kA) xA
         \<and> dA = map (\<lambda>xi. map (\<lambda>kv. sum_list (vmul kv xi)) kA) xA"
  using assms
  by (auto simp: compute_dot_def index_select_replicate list_all2_replicate_left
      map2_replicate_left split: if_splits)

lemma compute_dot_pair:
  assumes "list_all (\<lambda>xi. list_all (\<lambda>kv. length kv = length xi) kA) xA"
      and "list_all (\<lambda>xi. list_all (\<lambda>kv. length kv = length xi) kB) xB"
  shows "compute_dot [kA, kB] (xA @ xB) (replicate (length xA) 0 @ replicate (length xB) 1)
           = Inr (map (\<lambda>xi. map (\<lambda>kv. sum_list (vmul kv xi)) kA) xA
                  @ map (\<lambda>xi. map (\<lambda>kv. sum_list (vmul kv xi)) kB) xB)"
proof -
  have sel: "index_select [kA, kB] (replicate (length xA) 0 @ replicate (length xB) 1)
               = Inr (replicate (length xA) kA @ replicate (length xB) kB)"
    by (rule index_select_append) (simp_all add: index_select_replicate)
  have l2: "list_all2 (\<lambda>gi xi. list_all (\<lambda>kv. length kv = length xi) gi)
              (replicate (length xA) kA @ replicate (length xB) kB) (xA @ xB)"
    using assms by (intro list_all2_appendI) (simp_all add: list_all2_replicate_left)
  show ?thesis
    by (simp add: compute_dot_def sel l2 map2_replicate_left)
qed

lemma compute_kfilter_one:
  assumes "compute_kfilter blk 1 = Inr kf1"
  shows "\<exists>F. kf1 = [F] \<and> compute_kfilter blk 2 = Inr [F, F]"
  using assms
  by (auto simp: compute_kfilter_def expand_batch_def then_do_Inr_iff numeral_2_eq_2
      split: if_splits option.splits)

lemma damped_append:
  assumes "damped f sA dA = Inr wA" "damped f sB dB = Inr wB"
      and "(\<exists>c. sA = Scalar c \<and> sB = Scalar c \<and> sAB = Scalar c)
           \<or> (\<exists>tA tB. sA = Damp tA \<and> sB = Damp tB \<and> sAB = Damp (tA @ tB))"
  shows "damped f sAB (dA @ dB) = Inr (wA @ wB)"
  using assms(3)
proof (elim disjE exE conjE)
  fix c assume "sA = Scalar c" "sB = Scalar c" "sAB = Scalar c"
  then show ?thesis using assms(1,2) by (auto simp: damped_def)
next
  fix tA tB assume s: "sA = Damp tA" "sB = Damp tB" "sAB = Damp (tA @ tB)"
  from assms(1) s have a: "list_all2 (\<lambda>a b. length a = length b) tA dA"
    and wa: "wA = map2 (map2 (\<lambda>s d. s * f d)) tA dA"
    by (auto simp: damped_def split: if_splits)
  from assms(2) s have b: "list_all2 (\<lambda>a b. length a = length b) tB dB"
    and wb: "wB = map2 (map2 (\<lambda>s d. s * f d)) tB dB"
    by (auto simp: damped_def split: if_splits)
  have "list_all2 (\<lambda>a b. length a = length b) (tA @ tB) (dA @ dB)"
    using a b by (rule list_all2_appendI)
  moreover have "length tA = length dA" using a by (rule list_all2_lengthD)
  ultimately show ?thesis by (simp add: damped_def s wa wb)
qed

lemma compute_damping_pair:
  assumes "compute_damping blk xA [kA] = Inr sA" "compute_damping blk xB [kB] = Inr sB"
      and "length kA = length kB"
  shows "\<exists>sAB. compute_damping blk (xA @ xB) [kA, kB] = Inr sAB
           \<and> ((\<exists>c. sA = Scalar c \<and> sB = Scalar c \<and> sAB = Scalar c)
              \<or> (\<exists>tA tB. sA = Damp tA \<and> sB = Damp tB \<and> sAB = Damp (tA @ tB)))"
  using assms
  by (auto simp: compute_damping_def ncols_def split: if_splits option.splits)

lemma rescale_append:
  "length uA = length hA \<Longrightarrow> rescale sc (uA @ uB) (hA @ hB) = rescale sc uA hA @ rescale sc uB hB"
  by (simp add: rescale_def ScaleFactor_call_def split: option.splits)

lemma apply_layers_append: "apply_layers ls (a @ b) = apply_layers ls a @ apply_layers ls b"
  unfolding apply_layers_def by (induction ls arbitrary: a b) simp_all

lemma forward_parts:
  assumes "forward blk h x k B bs None None = Inr (r, blk')"
  shows "\<exists>d s kf wc ws u. compute_dot k x bs = Inr d \<and> compute_damping blk x k = Inr s
           \<and> compute_kfilter blk B = Inr kf
           \<and> damped cos s d = Inr wc \<and> damped sin s d = Inr ws
           \<and> ewald_sum (ncols d) (ncols (map (pre_residual blk) h)) (map (pre_residual blk) h)
                wc ws kf B bs = Inr u
           \<and> update_of r = apply_layers (ewald_layers blk) (rescale (ewald_scale_sum blk) u h)"
  using assms
  by (auto simp: forward_def Let_def then_do_Inr_iff resolve_dot_def resolve_damping_def
      split: if_splits)


lemma ewald_sum_common:
  assumes e: "ewald_sum K1 E1 hres wc ws [F] 1 (replicate (length hres) 0) = Inr u"
      and c: "hres \<noteq> [] \<longrightarrow> K1 = K \<and> E1 = E"
  shows "is_mat (length hres) K wc \<and> is_mat (length hres) K ws
         \<and> list_all (\<lambda>r. length r = E) hres \<and> (hres \<noteq> [] \<longrightarrow> is_mat K E F)
         \<and> u = back_transform E
               (replicate (length hres)
                  (map2 vmul (fold (\<lambda>s a. madd a s) (weighted hres wc) (replicate K (replicate E 0))) F))
               (replicate (length hres)
                  (map2 vmul (fold (\<lambda>s a. madd a s) (weighted hres ws) (replicate K (replicate E 0))) F))
               wc ws"
proof (cases "hres = []")
  case True
  with ewald_sum_single[OF e] show ?thesis
    by (simp add: is_mat_def back_transform_def)
next
  case False
  with c ewald_sum_single[OF e] show ?thesis by simp
qed

text \<open>
  C6. Two single-structure inputs with the same number of reciprocal vectors and the
  same embedding size are run separately, and once concatenated with the batch segment
  that sends the atoms of the first to structure 0 and those of the second to structure
  1. The concatenated run returns, atom for atom, the updates of the separate runs.
\<close>

theorem forward_batch_invariant:
  assumes wf: "wf_EwaldBlock E blk"
      and hA: "is_mat (length hA) E hA" and hB: "is_mat (length hB) E hB"
      and kk: "length kA = length kB"
      and A: "forward blk hA xA [kA] 1 (replicate (length hA) 0) None None = Inr (rA, bA)"
      and B: "forward blk hB xB [kB] 1 (replicate (length hB) 0) None None = Inr (rB, bB)"
  shows "\<exists>r b'. forward blk (hA @ hB) (xA @ xB) [kA, kB] 2
                  (replicate (length hA) 0 @ replicate (length hB) 1) None None = Inr (r, b')
               \<and> update_of r = update_of rA @ update_of rB"
proof -
  let ?p = "pre_residual blk"
  let ?hA = "map ?p hA" and ?hB = "map ?p hB"
  from forward_parts[OF A] obtain dA sA kf1 wcA wsA uA where
    dA: "compute_dot [kA] xA (replicate (length hA) 0) = Inr dA"
    and sA: "compute_damping blk xA [kA] = Inr sA"
    and kf1: "compute_kfilter blk 1 = Inr kf1"
    and wcA: "damped cos sA dA = Inr wcA" and wsA: "damped sin sA dA = Inr wsA"
    and eA: "ewald_sum (ncols dA) (ncols ?hA) ?hA wcA wsA kf1 1 (replicate (length hA) 0) = Inr uA"
    and rA: "update_of rA = apply_layers (ewald_layers blk) (rescale (ewald_scale_sum blk) uA hA)"
    by blast
  from forward_parts[OF B] kf1 obtain dB sB wcB wsB uB where
    dB: "compute_dot [kB] xB (replicate (length hB) 0) = Inr dB"
    and sB: "compute_damping blk xB [kB] = Inr sB"
    and wcB: "damped cos sB dB = Inr wcB" and wsB: "damped sin sB dB = Inr wsB"
    and eB: "ewald_sum (ncols dB) (ncols ?hB) ?hB wcB wsB kf1 1 (replicate (length hB) 0) = Inr uB"
    and rB: "update_of rB = apply_layers (ewald_layers blk) (rescale (ewald_scale_sum blk) uB hB)"
    by auto
  obtain F where F: "kf1 = [F]" and kf2: "compute_kfilter blk 2 = Inr [F, F]"
    using compute_kfilter_one[OF kf1] by blast
  note cA = compute_dot_single[OF dA] and cB = compute_dot_single[OF dB]
  have lxA: "length xA = length hA" and lxB: "length xB = length hB"
    using cA cB by simp_all
  have dAB: "compute_dot [kA, kB] (xA @ xB) (replicate (length hA) 0 @ replicate (length hB) 1)
               = Inr (dA @ dB)"
    using compute_dot_pair[of kA xA kB xB] cA cB by (simp add: lxA lxB)
  obtain sAB where sAB: "compute_damping blk (xA @ xB) [kA, kB] = Inr sAB"
    and j: "(\<exists>c. sA = Scalar c \<and> sB = Scalar c \<and> sAB = Scalar c)
              \<or> (\<exists>tA tB. sA = Damp tA \<and> sB = Damp tB \<and> sAB = Damp (tA @ tB))"
    using compute_damping_pair[OF sA sB kk] by blast
  have wc: "damped cos sAB (dA @ dB) = Inr (wcA @ wcB)"
    by (rule damped_append[OF wcA wcB j])
  have ws: "damped sin sAB (dA @ dB) = Inr (wsA @ wsB)"
    by (rule damped_append[OF wsA wsB j])
  let ?K = "ncols (dA @ dB)" and ?E = "ncols (?hA @ ?hB)"
  have p: "layer_ok E ?p" using wf by (simp add: wf_EwaldBlock_def)
  have ncA: "ncols ?hA = E" if "hA \<noteq> []"
    using hres_shape[OF p hA] that by (intro ncols_is_mat) auto
  have ncB: "ncols ?hB = E" if "hB \<noteq> []"
    using hres_shape[OF p hB] that by (intro ncols_is_mat) auto
  have kA: "ncols dA = length kA" if "hA \<noteq> []"
    using cA that lxA by (cases xA) (simp_all add: ncols_def)
  have kB: "ncols dB = length kB" if "hB \<noteq> []"
    using cB that lxB by (cases xB) (simp_all add: ncols_def)
  have dA0: "dA = [] \<longleftrightarrow> hA = []" using cA lxA by auto
  have A': "hA \<noteq> [] \<longrightarrow> ncols dA = ?K \<and> ncols ?hA = ?E"
    by (simp add: ncols_append dA0)
  have B': "hB \<noteq> [] \<longrightarrow> ncols dB = ?K \<and> ncols ?hB = ?E"
    using kA kB ncA ncB kk by (auto simp: ncols_append dA0)
  have eA': "ewald_sum (ncols dA) (ncols ?hA) ?hA wcA wsA [F] 1 (replicate (length ?hA) 0) = Inr uA"
    using eA F by simp
  have eB': "ewald_sum (ncols dB) (ncols ?hB) ?hB wcB wsB [F] 1 (replicate (length ?hB) 0) = Inr uB"
    using eB F by simp
  have nA: "?hA \<noteq> [] \<longrightarrow> ncols dA = ?K \<and> ncols ?hA = ?E" using A' by simp
  have nB: "?hB \<noteq> [] \<longrightarrow> ncols dB = ?K \<and> ncols ?hB = ?E" using B' by simp
  note SA = ewald_sum_common[OF eA' nA] and SB = ewald_sum_common[OF eB' nB]
  have chk: "?hA @ ?hB \<noteq> [] \<longrightarrow> is_mat ?K ?E F"
    using SA SB by auto
  have pair: "ewald_sum ?K ?E (?hA @ ?hB) (wcA @ wcB) (wsA @ wsB) [F, F] 2
                (replicate (length ?hA) 0 @ replicate (length ?hB) 1) = Inr (uA @ uB)"
    using ewald_sum_pair[of ?hA ?K wcA wsA ?E ?hB wcB wsB F] SA SB chk by simp
  have luA: "length uA = length hA"
    using ewald_sum_shape[OF eA] by (simp add: is_mat_def)
  have "forward blk (hA @ hB) (xA @ xB) [kA, kB] 2
          (replicate (length hA) 0 @ replicate (length hB) 1) None None
        = Inr (if return_k_params blk
               then UpdateK (update_of rA @ update_of rB) (dA @ dB) sAB
               else Update (update_of rA @ update_of rB), blk\<lparr>kfilter := Some [F, F]\<rparr>)"
    using pair
    by (simp add: forward_def Let_def resolve_dot_def resolve_damping_def dAB sAB kf2 wc ws
        rA rB rescale_append[OF luA] apply_layers_append)
  then show ?thesis by auto
qed


lemma eb_example_forward2:
  "forward eb_example [[3, 4]] [[0, 0, 0]] [[[1, 0, 0], [0, 1, 0]]] 1 [0] None None
     = Inr (UpdateK [[0.06, 0.16]] [[0, 0]] (Scalar 1),
            eb_example\<lparr>kfilter := Some [[[1, 2], [1, 2]]]\<rparr>)"
proof -
  have d: "compute_damping eb_example x k = Inr (Scalar 1)" for x k
    by (simp add: compute_damping_def eb_example_def)
  have p: "pre_residual eb_example v = v" for v
    by (simp add: eb_example_def)
  have l: "apply_layers (ewald_layers eb_example) (rescale (ewald_scale_sum eb_example) u w) = u"
    for u w
    by (simp add: eb_example_def apply_layers_def rescale_def)
  have r: "return_k_params eb_example" by (simp add: eb_example_def)
  have n: "ncols [[a, b]] = 2" for a b :: real by (simp add: ncols_def)
  have e: "ewald_sum 2 2 [[3, 4]] [[1, 1]] [[0, 0]] [[[1, 2], [1, 2]]] 1 [0]
             = Inr [[0.06, 0.16]]"
    by (simp add: ewald_sum_def structure_factor_def is_mat_def
        index_add_def new_zeros_def weighted_def index_add_step_def madd_def vadd_def
        tmul3_def vmul_def index_select_def back_transform_def atom_update_def sum_rows_def
        numeral_2_eq_2)
  show ?thesis
    by (simp add: forward_def Let_def resolve_dot_def resolve_damping_def eb_example_dot
        eb_example_kfilter d p l r damped_def n e)
qed

theorem forward_batch_invariant_witness:
  "wf_EwaldBlock 2 eb_example \<and> is_mat 1 2 [[1, 2::real]] \<and> is_mat 1 2 [[3, 4::real]]
   \<and> update_of (UpdateK [[0.02, 0.08]] [[0, 0]] (Scalar 1)) = [[0.02, 0.08]]
   \<and> (\<exists>r b'. forward eb_example [[1, 2], [3, 4]] [[0, 0, 0], [0, 0, 0]]
                 [[[1, 0, 0], [0, 1, 0]], [[1, 0, 0], [0, 1, 0]]] 2 [0, 1] None None
                 = Inr (r, b')
              \<and> update_of r = [[0.02, 0.08], [0.06, 0.16]])"
proof -
  have a: "is_mat (length [[1, 2::real]]) 2 [[1, 2::real]]" by (simp add: is_mat_def)
  have b: "is_mat (length [[3, 4::real]]) 2 [[3, 4::real]]" by (simp add: is_mat_def)
  have k: "length [[1, 0, 0], [0, 1, 0::real]] = length [[1, 0, 0], [0, 1, 0::real]]" by simp
  have A: "forward eb_example [[1, 2]] [[0, 0, 0]] [[[1, 0, 0], [0, 1, 0]]] 1
             (replicate (length [[1, 2::real]]) 0) None None
           = Inr (UpdateK [[0.02, 0.08]] [[0, 0]] (Scalar 1),
                  eb_example\<lparr>kfilter := Some [[[1, 2], [1, 2]]]\<rparr>)"
    using eb_example_forward by simp
  have B: "forward eb_example [[3, 4]] [[0, 0, 0]] [[[1, 0, 0], [0, 1, 0]]] 1
             (replicate (length [[3, 4::real]]) 0) None None
           = Inr (UpdateK [[0.06, 0.16]] [[0, 0]] (Scalar 1),
                  eb_example\<lparr>kfilter := Some [[[1, 2], [1, 2]]]\<rparr>)"
    using eb_example_forward2 by simp
  from forward_batch_invariant[OF eb_example_wf a b k A B] a b eb_example_wf
  show ?thesis by simp
qed

end
